theory Spec2Isabelle
  imports Main "HOL-Library.AList"
begin

section \<open>JavaScript values\<close>

text \<open>
  The server is TypeScript compiled to JavaScript: bodies received from the remote API and
  tool arguments are untyped at run time (\<^verbatim>\<open>any\<close>), and the code inspects them by
  truthiness, by \<^verbatim>\<open>!== undefined\<close> and by property reads. They are modelled as JSON
  values extended with \<^verbatim>\<open>undefined\<close>. Numbers are mathematical integers: fractions, NaN
  and IEEE rounding are not represented. An object is its list of own properties in
  insertion order.

  The three caches of \<^verbatim>\<open>data.ts\<close> are plain objects read at names that the caller
  chooses (a symbol, an account id), so a read of them also answers the names that
  \<^verbatim>\<open>Object.prototype\<close> defines. \<open>JNative k\<close> is the value found there under the name \<open>k\<close>:
  a built-in function (\<^verbatim>\<open>Object\<close> itself for \<^verbatim>\<open>constructor\<close>), or, for \<^verbatim>\<open>__proto__\<close>,
  the object \<^verbatim>\<open>Object.prototype\<close>.
\<close>

datatype jsval =
    JUndefined
  | JNull
  | JBool bool
  | JNum int
  | JStr string
  | JArr "jsval list"
  | JObj "(string \<times> jsval) list"
  | JNative string

text \<open>Errors as values: what a \<^verbatim>\<open>throw\<close> or a rejected promise carries.\<close>

datatype error =
    Error jsval        \<comment> \<open>\<^verbatim>\<open>new Error(m)\<close>, with the value \<open>m\<close> given as message\<close>
  | TypeError          \<comment> \<open>a property read on \<^verbatim>\<open>null\<close>/\<^verbatim>\<open>undefined\<close>, or a call of a non-function\<close>
  | HttpError nat jsval \<comment> \<open>axios rejection with \<^verbatim>\<open>error.response\<close>: status and body\<close>
  | NetworkError       \<comment> \<open>axios rejection without a response (timeout, connection)\<close>

text \<open>\<^verbatim>\<open>!v\<close> is \<open>\<not> truthy v\<close>.\<close>

fun truthy :: "jsval \<Rightarrow> bool" where
  "truthy JUndefined = False"
| "truthy JNull = False"
| "truthy (JBool b) = b"
| "truthy (JNum n) = (n \<noteq> 0)"
| "truthy (JStr s) = (s \<noteq> [])"
| "truthy (JArr xs) = True"
| "truthy (JObj fs) = True"
| "truthy (JNative n) = True"

text \<open>\<^verbatim>\<open>a || b\<close> on values.\<close>

definition js_or :: "jsval \<Rightarrow> jsval \<Rightarrow> jsval" where
  "js_or a b = (if truthy a then a else b)"

subsection \<open>Decimal numerals and property keys\<close>

fun dec :: "nat \<Rightarrow> string" where
  "dec n = (if n < 10 then [''0123456789'' ! n]
            else dec (n div 10) @ [''0123456789'' ! (n mod 10)])"

declare dec.simps [simp del]

definition num_str :: "int \<Rightarrow> string" where
  "num_str n = (if n < 0 then CHR ''-'' # dec (nat (- n)) else dec (nat n))"

definition is_digit :: "char \<Rightarrow> bool" where
  "is_digit c = (c \<in> set ''0123456789'')"

definition digit_val :: "char \<Rightarrow> nat" where
  "digit_val c = of_char c - 48"

definition parse_nat :: "string \<Rightarrow> nat" where
  "parse_nat s = foldl (\<lambda>n c. 10 * n + digit_val c) 0 s"

text \<open>A canonical numeric string: digits only, no leading zero (but \<^verbatim>\<open>"0"\<close> itself).\<close>

definition canonical_nat :: "string \<Rightarrow> bool" where
  "canonical_nat s = (case s of [] \<Rightarrow> False
                      | c # cs \<Rightarrow> list_all is_digit s \<and> (c \<noteq> CHR ''0'' \<or> cs = []))"

definition join_comma :: "string list \<Rightarrow> string" where
  "join_comma ss = (case ss of [] \<Rightarrow> [] | s # rest \<Rightarrow> foldl (\<lambda>acc t. acc @ '','' @ t) s rest)"

text \<open>ToString, as used for property keys (\<^verbatim>\<open>cache[symbol]\<close>, \<^verbatim>\<open>cache[account.id]\<close>).\<close>

fun js_to_string :: "jsval \<Rightarrow> string" where
  "js_to_string JUndefined = ''undefined''"
| "js_to_string JNull = ''null''"
| "js_to_string (JBool b) = (if b then ''true'' else ''false'')"
| "js_to_string (JNum n) = num_str n"
| "js_to_string (JStr s) = s"
| "js_to_string (JArr xs) =
     join_comma (map (\<lambda>x. if x = JUndefined \<or> x = JNull then [] else js_to_string x) xs)"
| "js_to_string (JObj fs) = ''[object Object]''"
| "js_to_string (JNative n) =
     (if n = ''__proto__'' then ''[object Object]''
      else ''function '' @ (if n = ''constructor'' then ''Object'' else n) @ ''() { [native code] }'')"

text \<open>
  ToNumber; \<open>None\<close> is NaN. A string converts when it is empty or a canonical decimal
  integer; other numeric spellings (\<^verbatim>\<open>"1.5"\<close>, \<^verbatim>\<open>"0x10"\<close>, \<^verbatim>\<open>" 7"\<close>) lie outside the
  integer model and are taken as NaN.
\<close>

definition str_to_number :: "string \<Rightarrow> int option" where
  "str_to_number s =
     (if s = [] then Some 0
      else if canonical_nat s then Some (int (parse_nat s))
      else case s of c # cs \<Rightarrow>
             if c = CHR ''-'' \<and> canonical_nat cs then Some (- int (parse_nat cs)) else None
           | [] \<Rightarrow> None)"

fun js_to_number :: "jsval \<Rightarrow> int option" where
  "js_to_number JUndefined = None"
| "js_to_number JNull = Some 0"
| "js_to_number (JBool b) = Some (if b then 1 else 0)"
| "js_to_number (JNum n) = Some n"
| "js_to_number (JStr s) = str_to_number s"
| "js_to_number (JArr xs) = str_to_number (js_to_string (JArr xs))"
| "js_to_number (JObj fs) = None"
| "js_to_number (JNative n) = None"

text \<open>\<^verbatim>\<open>String(n)\<close> of a number that may be NaN.\<close>

definition number_to_string :: "int option \<Rightarrow> string" where
  "number_to_string n = (case n of None \<Rightarrow> ''NaN'' | Some i \<Rightarrow> num_str i)"

text \<open>\<^verbatim>\<open>v > 0\<close>.\<close>

definition js_gt0 :: "jsval \<Rightarrow> bool" where
  "js_gt0 v = (case js_to_number v of None \<Rightarrow> False | Some n \<Rightarrow> 0 < n)"

subsection \<open>Property reads\<close>

definition array_index :: "string \<Rightarrow> nat option" where
  "array_index k =
     (if canonical_nat k \<and> int (parse_nat k) < 2 ^ 32 - 1 then Some (parse_nat k) else None)"

text \<open>
  \<^verbatim>\<open>v.k\<close> and \<^verbatim>\<open>v[k]\<close> on a value: a TypeError on \<^verbatim>\<open>null\<close> and \<^verbatim>\<open>undefined\<close>; own
  properties of an object; elements and \<^verbatim>\<open>length\<close> of an array or a string; \<^verbatim>\<open>name\<close> and
  \<^verbatim>\<open>length\<close> of a built-in function; \<^verbatim>\<open>undefined\<close> otherwise. The code reads values at
  the fixed names \<^verbatim>\<open>success\<close>, \<^verbatim>\<open>data\<close>, \<^verbatim>\<open>errorMessage\<close>, \<^verbatim>\<open>token\<close>, \<^verbatim>\<open>accounts\<close>,
  \<^verbatim>\<open>id\<close>, \<^verbatim>\<open>name\<close>, \<^verbatim>\<open>balance\<close>, \<^verbatim>\<open>canTrade\<close>, \<^verbatim>\<open>length\<close>, at the names of the tool
  arguments and at array indices; the methods and the other members that the prototypes of
  the runtime add to a value are not among them and are not represented here. The reads of
  the caches, at names chosen by the caller, are \<open>object_get\<close> below.
\<close>

fun js_get :: "jsval \<Rightarrow> string \<Rightarrow> error + jsval" where
  "js_get JUndefined k = Inl TypeError"
| "js_get JNull k = Inl TypeError"
| "js_get (JBool b) k = Inr JUndefined"
| "js_get (JNum n) k = Inr JUndefined"
| "js_get (JStr s) k =
     Inr (if k = ''length'' then JNum (int (length s))
          else case array_index k of
                 Some i \<Rightarrow> if i < length s then JStr [s ! i] else JUndefined
               | None \<Rightarrow> JUndefined)"
| "js_get (JArr xs) k =
     Inr (if k = ''length'' then JNum (int (length xs))
          else case array_index k of
                 Some i \<Rightarrow> if i < length xs then xs ! i else JUndefined
               | None \<Rightarrow> JUndefined)"
| "js_get (JObj fs) k = Inr (case map_of fs k of Some v \<Rightarrow> v | None \<Rightarrow> JUndefined)"
| "js_get (JNative n) k =
     Inr (if n = ''__proto__'' then JUndefined
          else if k = ''name'' then JStr (if n = ''constructor'' then ''Object'' else n)
          else if k = ''length''
          then JNum (if n \<in> {''__defineGetter__'', ''__defineSetter__''} then 2
                     else if n \<in> {''toString'', ''valueOf'', ''toLocaleString''} then 0 else 1)
          else JUndefined)"

section \<open>The remote API and the process state\<close>

text \<open>
  One HTTP call: the axios instance's base URL and bearer token (\<open>None\<close> for the login
  client, which sends no Authorization header), the method, the path and the body.
\<close>

datatype call = Call (baseURL: string) (bearer: "jsval option") (meth: string) (path: string)
  (payload: jsval)

text \<open>
  What axios makes of the answer: a 2xx response resolves with its body; any other status
  rejects with \<^verbatim>\<open>error.response\<close> set; a timeout or connection failure rejects without.
\<close>

datatype reply = Resolve jsval | Reject nat jsval | NoResponse

text \<open>
  The module-level variables of \<^verbatim>\<open>auth.ts\<close> and \<^verbatim>\<open>data.ts\<close>, the environment, the clock,
  the remote platform (its answer to the latest call of a history, and the milliseconds it
  takes) and the log of calls issued so far. \<open>None\<close> is \<^verbatim>\<open>null\<close>. A cache is the list of
  its own properties. \<open>accountsProto\<close> is the prototype of the account cache: \<open>None\<close> while
  it is \<^verbatim>\<open>Object.prototype\<close>, as created, and the object that replaced it once an
  assignment at the name \<^verbatim>\<open>__proto__\<close> has done so (\<open>object_assign\<close> below). The prototype
  of the contract cache is never replaced, and the id map is never read.
\<close>

record world =
  env :: "string \<rightharpoonup> string"
  remote :: "call list \<Rightarrow> reply \<times> nat"
  now :: int
  authToken :: "jsval option"
  tokenExpiry :: "int option"
  axiosInstance :: "(string \<times> jsval) option"
  accountsCache :: "(string \<times> jsval) list"
  accountsProto :: "(string \<times> jsval) list option"
  contractsCache :: "(string \<times> jsval) list"
  symbolToContractIdMap :: "(string \<times> jsval) list"
  calls :: "call list"

text \<open>
  \<^verbatim>\<open>await instance.request(...)\<close>: the call is logged, the clock advances, axios settles.
  The payload of a call is the value that the code hands to axios. On the wire axios writes
  it as JSON, which leaves out a property whose value is \<^verbatim>\<open>undefined\<close>; the remote platform
  of the model is asked with the value as handed over, so it stands for every platform,
  those that see the serialised body included.
\<close>

definition axios_request :: "call \<Rightarrow> world \<Rightarrow> (error + jsval) \<times> world" where
  "axios_request c w =
     (case remote w (calls w @ [c]) of
        (r, dt) \<Rightarrow>
          (case r of
             Resolve body \<Rightarrow> Inr body
           | Reject status body \<Rightarrow> Inl (HttpError status body)
           | NoResponse \<Rightarrow> Inl NetworkError,
           w\<lparr>now := now w + int dt, calls := calls w @ [c]\<rparr>))"

section \<open>auth.ts\<close>

text \<open>\<^verbatim>\<open>a || b\<close> on environment variables (a string or \<^verbatim>\<open>undefined\<close>).\<close>

definition env_or :: "string option \<Rightarrow> string option \<Rightarrow> string option" where
  "env_or a b = (case a of None \<Rightarrow> b | Some s \<Rightarrow> if s = [] then b else Some s)"

definition getApiUrl :: "(string \<rightharpoonup> string) \<Rightarrow> string" where
  "getApiUrl e =
     (case env_or (e ''TOPSTEPX_ENVIRONMENT'') (Some ''demo'') of
        None \<Rightarrow> ''https://gateway-api-demo.s2f.projectx.com/api''
      | Some environment \<Rightarrow>
          if environment = ''topstepx'' \<or> environment = ''demo''
          then ''https://api.topstepx.com/api''
          else if environment = ''live''
          then ''https://gateway-api.s2f.projectx.com/api''
          else ''https://gateway-api-demo.s2f.projectx.com/api'')"

definition username_of :: "(string \<rightharpoonup> string) \<Rightarrow> string option" where
  "username_of e = env_or (e ''TOPSTEPX_USERNAME'') (e ''PROJECTX_USERNAME'')"

definition apiKey_of :: "(string \<rightharpoonup> string) \<Rightarrow> string option" where
  "apiKey_of e = env_or (e ''TOPSTEPX_API_KEY'') (e ''PROJECTX_API_KEY'')"

definition credentials_error :: error where
  "credentials_error = Error (JStr
     ''TOPSTEPX_USERNAME/PROJECTX_USERNAME and TOPSTEPX_API_KEY/PROJECTX_API_KEY must be set in environment variables'')"

definition login_call :: "(string \<rightharpoonup> string) \<Rightarrow> string \<Rightarrow> string \<Rightarrow> call" where
  "login_call e username apiKey =
     Call (getApiUrl e) None ''POST'' ''/Auth/loginKey''
       (JObj [(''userName'', JStr username), (''apiKey'', JStr apiKey)])"

text \<open>
  \<^verbatim>\<open>authenticate\<close> (lines 28-96). Its \<^verbatim>\<open>catch\<close> logs and rethrows the same error, so
  it is transparent. Logging has no effect on the state and is left out throughout.
\<close>

definition authenticate :: "world \<Rightarrow> (error + unit) \<times> world" where
  "authenticate w =
     (case (username_of (env w), apiKey_of (env w)) of
        (Some username, Some apiKey) \<Rightarrow>
          if username = [] \<or> apiKey = [] then (Inl credentials_error, w)
          else
            (case axios_request (login_call (env w) username apiKey) w of
               (Inl e, w1) \<Rightarrow> (Inl e, w1)
             | (Inr body, w1) \<Rightarrow>
                 (case (js_get body ''success'', js_get body ''token'', js_get body ''errorMessage'') of
                    (Inr success, Inr token, Inr errorMessage) \<Rightarrow>
                      if truthy success \<and> truthy token
                      then (Inr (),
                            w1\<lparr>authToken := Some token,
                               tokenExpiry := Some (now w1 + 24 * 60 * 60 * 1000),
                               axiosInstance := Some (getApiUrl (env w), token)\<rparr>)
                      else (Inl (Error (js_or errorMessage (JStr ''Authentication failed''))), w1)
                  | _ \<Rightarrow> (Inl TypeError, w1)))
      | _ \<Rightarrow> (Inl credentials_error, w))"

definition needs_login :: "world \<Rightarrow> bool" where
  "needs_login w =
     ((case authToken w of None \<Rightarrow> True | Some t \<Rightarrow> \<not> truthy t)
      \<or> (case tokenExpiry w of None \<Rightarrow> True | Some expiry \<Rightarrow> expiry < now w))"

definition ensureAuthenticated :: "world \<Rightarrow> (error + unit) \<times> world" where
  "ensureAuthenticated w = (if needs_login w then authenticate w else (Inr (), w))"

text \<open>The normalisation of the first attempt's response (lines 124-136).\<close>

definition first_response :: "jsval \<Rightarrow> error + jsval" where
  "first_response body =
     (case (js_get body ''success'', js_get body ''data'', js_get body ''errorMessage'') of
        (Inr success, Inr data, Inr errorMessage) \<Rightarrow>
          if success \<noteq> JUndefined
          then (if truthy success
                then Inr (if data \<noteq> JUndefined then data else body)
                else Inl (Error (js_or errorMessage (JStr ''Request failed''))))
          else Inr body
      | _ \<Rightarrow> Inl TypeError)"

text \<open>The handling of the retry's response (lines 151-155).\<close>

definition retry_response :: "jsval \<Rightarrow> error + jsval" where
  "retry_response body =
     (case (js_get body ''success'', js_get body ''data'', js_get body ''errorMessage'') of
        (Inr success, Inr data, Inr errorMessage) \<Rightarrow>
          if truthy success
          then Inr data
          else Inl (Error (js_or errorMessage (JStr ''Request failed'')))
      | _ \<Rightarrow> Inl TypeError)"

text \<open>\<^verbatim>\<open>error.response?.status === 401\<close>.\<close>

fun is_401 :: "error \<Rightarrow> bool" where
  "is_401 (HttpError status body) = (status = 401)"
| "is_401 e = False"

text \<open>The \<^verbatim>\<open>try\<close> block of \<^verbatim>\<open>topstepxRequest\<close> (lines 115-136).\<close>

definition first_attempt :: "call \<Rightarrow> world \<Rightarrow> (error + jsval) \<times> world" where
  "first_attempt c w =
     (case axios_request c w of
        (Inl e, w1) \<Rightarrow> (Inl e, w1)
      | (Inr body, w1) \<Rightarrow> (first_response body, w1))"

text \<open>The 401 branch of the \<^verbatim>\<open>catch\<close> block (lines 138-156).\<close>

definition reauthenticate_and_retry ::
  "string \<Rightarrow> string \<Rightarrow> jsval \<Rightarrow> world \<Rightarrow> (error + jsval) \<times> world" where
  "reauthenticate_and_retry m p d w =
     (case authenticate (w\<lparr>authToken := None\<rparr>) of
        (Inl e, w1) \<Rightarrow> (Inl e, w1)
      | (Inr u, w1) \<Rightarrow>
          (case axiosInstance w1 of
             None \<Rightarrow> (Inl TypeError, w1)
           | Some (base, token) \<Rightarrow>
               (case axios_request (Call base (Some token) m p d) w1 of
                  (Inl e, w2) \<Rightarrow> (Inl e, w2)
                | (Inr body, w2) \<Rightarrow> (retry_response body, w2))))"

definition topstepxRequest ::
  "string \<Rightarrow> string \<Rightarrow> jsval \<Rightarrow> world \<Rightarrow> (error + jsval) \<times> world" where
  "topstepxRequest m p d w =
     (case ensureAuthenticated w of
        (Inl e, w1) \<Rightarrow> (Inl e, w1)
      | (Inr u, w1) \<Rightarrow>
          (case axiosInstance w1 of
             None \<Rightarrow> (Inl (Error (JStr ''Not authenticated'')), w1)
           | Some (base, token) \<Rightarrow>
               (case first_attempt (Call base (Some token) m p d) w1 of
                  (Inr v, w2) \<Rightarrow> (Inr v, w2)
                | (Inl e, w2) \<Rightarrow>
                    if is_401 e then reauthenticate_and_retry m p d w2 else (Inl e, w2))))"

section \<open>data.ts\<close>

subsection \<open>Objects used as caches\<close>

text \<open>
  \<^verbatim>\<open>Object.keys\<close>: the own array-index keys in ascending order, then the other own keys in
  insertion order. \<^verbatim>\<open>delete cache[k]\<close> is \<open>AList.delete\<close>.
\<close>

definition object_keys :: "(string \<times> jsval) list \<Rightarrow> string list" where
  "object_keys ob =
     sort_key parse_nat (filter (\<lambda>k. array_index k \<noteq> None) (map fst ob))
       @ filter (\<lambda>k. array_index k = None) (map fst ob)"

text \<open>
  The names that \<^verbatim>\<open>Object.prototype\<close> defines, and the read \<^verbatim>\<open>cache[k]\<close> of a cache
  created by \<^verbatim>\<open>{}\<close>: an own property, else what the prototype holds under the name.
\<close>

definition Object_prototype :: "string list" where
  "Object_prototype =
     [''constructor'', ''__defineGetter__'', ''__defineSetter__'', ''hasOwnProperty'',
      ''__lookupGetter__'', ''__lookupSetter__'', ''isPrototypeOf'', ''propertyIsEnumerable'',
      ''toString'', ''valueOf'', ''__proto__'', ''toLocaleString'']"

definition inherited :: "string \<Rightarrow> jsval" where
  "inherited k = (if k \<in> set Object_prototype then JNative k else JUndefined)"

definition object_get :: "(string \<times> jsval) list \<Rightarrow> string \<Rightarrow> jsval" where
  "object_get ob k = (case map_of ob k of Some v \<Rightarrow> v | None \<Rightarrow> inherited k)"

text \<open>
  The same read when the prototype may have been replaced by the object \<open>fs\<close>: own
  properties, then those of \<open>fs\<close>, then \<^verbatim>\<open>Object.prototype\<close>, whose \<^verbatim>\<open>__proto__\<close> getter
  answers the prototype of the object that is read.
\<close>

definition object_get_via ::
  "(string \<times> jsval) list option \<Rightarrow> (string \<times> jsval) list \<Rightarrow> string \<Rightarrow> jsval" where
  "object_get_via proto ob k =
     (case proto of
        None \<Rightarrow> object_get ob k
      | Some fs \<Rightarrow>
          (case map_of ob k of
             Some v \<Rightarrow> v
           | None \<Rightarrow>
               (case map_of fs k of
                  Some v \<Rightarrow> v
                | None \<Rightarrow> if k = ''__proto__'' then JObj fs else inherited k)))"

text \<open>
  The assignment \<^verbatim>\<open>cache[k] = v\<close>. It updates an own property (the key keeps its place)
  or creates one (the key goes last), except at the name \<^verbatim>\<open>__proto__\<close> when neither the
  object nor a replaced prototype has a property of that name: the assignment is then
  handed to the setter of \<^verbatim>\<open>Object.prototype\<close>, which creates no property and makes an
  object \<open>v\<close> the prototype. \<open>object_assign\<close> is the assignment to the account cache
  (line 45), where the value assigned under the name \<^verbatim>\<open>__proto__\<close> is an object of the
  response: its \<^verbatim>\<open>id\<close> is that name. \<open>object_set\<close> is the assignment to the id map (lines
  74 and 104), whose prototype is not kept, as the map is never read. The contract cache
  (lines 73 and 103) is assigned at a common symbol or at a name whose read was falsy,
  which \<^verbatim>\<open>__proto__\<close> is only as an own property: there the assignment is \<open>AList.update\<close>.
\<close>

definition object_assign ::
  "string \<Rightarrow> jsval \<Rightarrow> (string \<times> jsval) list \<times> (string \<times> jsval) list option
     \<Rightarrow> (string \<times> jsval) list \<times> (string \<times> jsval) list option" where
  "object_assign k v cache =
     (case cache of
        (ob, proto) \<Rightarrow>
          if k = ''__proto__'' \<and> map_of ob k = None
             \<and> (case proto of None \<Rightarrow> True | Some fs \<Rightarrow> map_of fs k = None)
          then (case v of JObj fs \<Rightarrow> (ob, Some fs) | _ \<Rightarrow> (ob, proto))
          else (AList.update k v ob, proto))"

definition object_set ::
  "string \<Rightarrow> jsval \<Rightarrow> (string \<times> jsval) list \<Rightarrow> (string \<times> jsval) list" where
  "object_set k v ob =
     (if k = ''__proto__'' \<and> map_of ob k = None then ob else AList.update k v ob)"

definition object_values :: "(string \<times> jsval) list \<Rightarrow> jsval list" where
  "object_values ob = map (object_get ob) (object_keys ob)"

subsection \<open>Accounts\<close>

text \<open>
  Line 41: \<^verbatim>\<open>Object.keys(accountsCache).forEach(key => delete accountsCache[Number(key)])\<close>.
  The property deleted is the one named by the number, back as a string: the key itself
  when it spells a number canonically, which in the integer model is a canonical decimal
  integer or \<^verbatim>\<open>NaN\<close>.
\<close>

definition clear_accounts :: "(string \<times> jsval) list \<Rightarrow> (string \<times> jsval) list" where
  "clear_accounts ob =
     foldl (\<lambda>acc key. AList.delete (number_to_string (str_to_number key)) acc) ob (object_keys ob)"

text \<open>Lines 44-46: \<^verbatim>\<open>accounts.forEach(account => { accountsCache[account.id] = account })\<close>.\<close>

fun store_accounts ::
  "jsval list \<Rightarrow> (string \<times> jsval) list \<times> (string \<times> jsval) list option
     \<Rightarrow> (error + unit) \<times> (string \<times> jsval) list \<times> (string \<times> jsval) list option" where
  "store_accounts [] cache = (Inr (), cache)"
| "store_accounts (account # rest) cache =
     (case js_get account ''id'' of
        Inl e \<Rightarrow> (Inl e, cache)
      | Inr i \<Rightarrow> store_accounts rest (object_assign (js_to_string i) account cache))"

text \<open>
  \<^verbatim>\<open>loadAccounts\<close> (lines 34-54). Everything is inside its \<^verbatim>\<open>try\<close>; the \<^verbatim>\<open>catch\<close> only
  logs. A truthy \<^verbatim>\<open>accounts\<close> that is not an array has no \<^verbatim>\<open>forEach\<close>: a TypeError, caught.
\<close>

definition loadAccounts :: "world \<Rightarrow> (error + unit) \<times> world" where
  "loadAccounts w =
     (case topstepxRequest ''POST'' ''/Account/search'' (JObj [(''onlyActiveAccounts'', JBool True)]) w of
        (Inl e, w1) \<Rightarrow> (Inr (), w1)
      | (Inr response, w1) \<Rightarrow>
          (let w2 = w1\<lparr>accountsCache := clear_accounts (accountsCache w1)\<rparr> in
           if \<not> truthy response then (Inr (), w2)
           else
             (case js_get response ''accounts'' of
                Inl e \<Rightarrow> (Inr (), w2)
              | Inr accounts \<Rightarrow>
                  if \<not> truthy accounts then (Inr (), w2)
                  else
                    (case accounts of
                       JArr elems \<Rightarrow>
                         (case snd (store_accounts elems (accountsCache w2, accountsProto w2)) of
                            (ob, proto) \<Rightarrow>
                              (Inr (), w2\<lparr>accountsCache := ob, accountsProto := proto\<rparr>))
                     | _ \<Rightarrow> (Inr (), w2)))))"

subsection \<open>Contracts\<close>

definition COMMON_SYMBOLS :: "string list" where
  "COMMON_SYMBOLS = [''MES'', ''MNQ'', ''MYM'', ''M2K'', ''MGC'', ''MCL'', ''MBT'', ''MET'']"

definition contract_search :: "jsval \<Rightarrow> jsval" where
  "contract_search symbol = JObj [(''searchText'', symbol), (''live'', JBool False)]"

text \<open>\<^verbatim>\<open>contracts && contracts.length > 0\<close>.\<close>

definition has_first :: "jsval \<Rightarrow> bool" where
  "has_first contracts =
     (truthy contracts \<and> (case js_get contracts ''length'' of Inr n \<Rightarrow> js_gt0 n | Inl e \<Rightarrow> False))"

text \<open>
  Lines 73-74 and 103-104: the cache entry is written before \<^verbatim>\<open>contract.id\<close> is read, so
  it stays when that read throws.
\<close>

definition store_contract :: "string \<Rightarrow> jsval \<Rightarrow> world \<Rightarrow> (error + unit) \<times> world" where
  "store_contract key contract w =
     (let w1 = w\<lparr>contractsCache := AList.update key contract (contractsCache w)\<rparr> in
      case js_get contract ''id'' of
        Inl e \<Rightarrow> (Inl e, w1)
      | Inr i \<Rightarrow>
          (Inr (), w1\<lparr>symbolToContractIdMap := object_set key i (symbolToContractIdMap w1)\<rparr>))"

text \<open>The body of the loop of \<^verbatim>\<open>loadContracts\<close> (lines 64-79), with its own \<^verbatim>\<open>catch\<close>.\<close>

definition load_symbol :: "string \<Rightarrow> world \<Rightarrow> world" where
  "load_symbol symbol w =
     (case topstepxRequest ''POST'' ''/Contract/search'' (contract_search (JStr symbol)) w of
        (Inl e, w1) \<Rightarrow> w1
      | (Inr contracts, w1) \<Rightarrow>
          if has_first contracts
          then (case js_get contracts ''0'' of
                  Inl e \<Rightarrow> w1
                | Inr contract \<Rightarrow> snd (store_contract symbol contract w1))
          else w1)"

definition loadContracts :: "world \<Rightarrow> (error + unit) \<times> world" where
  "loadContracts w =
     (Inr (), fold load_symbol COMMON_SYMBOLS (w\<lparr>contractsCache := [], symbolToContractIdMap := []\<rparr>))"

text \<open>\<^verbatim>\<open>initializeData\<close> (lines 17-32): the refresh. Its \<^verbatim>\<open>catch\<close> rethrows.\<close>

definition initializeData :: "world \<Rightarrow> (error + unit) \<times> world" where
  "initializeData w =
     (case loadAccounts w of
        (Inl e, w1) \<Rightarrow> (Inl e, w1)
      | (Inr u, w1) \<Rightarrow>
          (case loadContracts w1 of
             (Inl e, w2) \<Rightarrow> (Inl e, w2)
           | (Inr u', w2) \<Rightarrow> (Inr (), w2)))"

text \<open>\<^verbatim>\<open>getContractBySymbol\<close> (lines 88-112); \<open>JNull\<close> is its \<^verbatim>\<open>null\<close>.\<close>

definition getContractBySymbol :: "jsval \<Rightarrow> world \<Rightarrow> (error + jsval) \<times> world" where
  "getContractBySymbol symbol w =
     (if truthy (object_get (contractsCache w) (js_to_string symbol))
      then (Inr (object_get (contractsCache w) (js_to_string symbol)), w)
      else
        (case topstepxRequest ''POST'' ''/Contract/search'' (contract_search symbol) w of
           (Inl e, w1) \<Rightarrow> (Inr JNull, w1)
         | (Inr contracts, w1) \<Rightarrow>
             if has_first contracts
             then (case js_get contracts ''0'' of
                     Inl e \<Rightarrow> (Inr JNull, w1)
                   | Inr contract \<Rightarrow>
                       (case store_contract (js_to_string symbol) contract w1 of
                          (Inl e, w2) \<Rightarrow> (Inr JNull, w2)
                        | (Inr u, w2) \<Rightarrow> (Inr contract, w2)))
             else (Inr JNull, w1)))"

subsection \<open>Positions and orders\<close>

text \<open>
  Positions and orders never come from the remote API: the two functions build the empty
  array themselves, typed \<^verbatim>\<open>Position[]\<close> and \<^verbatim>\<open>Order[]\<close> (\<^verbatim>\<open>types.ts\<close>).
\<close>

record Position =
  pos_id :: int
  pos_accountId :: int
  pos_contractId :: int
  pos_symbol :: string
  pos_quantity :: int
  pos_side :: string
  pos_averagePrice :: int
  pos_unrealizedPnl :: int
  pos_realizedPnl :: int
  pos_openTime :: string

record Order =
  ord_id :: int
  ord_accountId :: int
  ord_contractId :: int
  ord_symbol :: string
  ord_side :: string
  ord_orderType :: string
  ord_quantity :: int
  ord_price :: "int option"
  ord_stopPrice :: "int option"
  ord_status :: string
  ord_filledQuantity :: int
  ord_averageFilledPrice :: "int option"
  ord_createdAt :: string
  ord_updatedAt :: string

definition getPositions :: "jsval \<Rightarrow> world \<Rightarrow> (error + Position list) \<times> world" where
  "getPositions accountId w = (Inr [], w)"

definition getOrders :: "jsval \<Rightarrow> jsval \<Rightarrow> world \<Rightarrow> (error + Order list) \<times> world" where
  "getOrders accountId onlyOpen w = (Inr [], w)"

definition getDefaultAccountId :: "world \<Rightarrow> error + jsval" where
  "getDefaultAccountId w =
     (case object_values (accountsCache w) of
        [] \<Rightarrow> Inr JNull
      | account # rest \<Rightarrow> js_get account ''id'')"

section \<open>tools.ts\<close>

text \<open>
  A tool result holds one text item. The text is kept as what is rendered rather than as
  the rendered string: \<open>Stringify d\<close> is \<^verbatim>\<open>JSON.stringify(d, null, 2)\<close>, and a template
  literal is the list of its parts, a \<^verbatim>\<open>${...}\<close> part being a value or a caught error.
\<close>

datatype part = Lit string | Val jsval | Err error

datatype rendering =
    Stringify jsval
  | StringifyError "part list"   \<comment> \<open>\<^verbatim>\<open>JSON.stringify({ error }, null, 2)\<close>\<close>
  | Plain "part list"

record CallToolResult =
  content :: rendering
  isError :: bool

definition createToolResult :: "jsval \<Rightarrow> CallToolResult" where
  "createToolResult d = \<lparr>content = Stringify d, isError = False\<rparr>"

definition createErrorResult :: "part list \<Rightarrow> CallToolResult" where
  "createErrorResult msg = \<lparr>content = StringifyError msg, isError = True\<rparr>"

text \<open>
  Every handler is one \<^verbatim>\<open>try\<close> whose \<^verbatim>\<open>catch\<close> returns
  \<^verbatim>\<open>createErrorResult(`<prefix>${error}`)\<close>.
\<close>

definition catching :: "string \<Rightarrow> (error + CallToolResult) \<times> world \<Rightarrow> CallToolResult \<times> world" where
  "catching prefix rw =
     (case rw of
        (Inr r, w) \<Rightarrow> (r, w)
      | (Inl e, w) \<Rightarrow> (createErrorResult [Lit prefix, Err e], w))"

text \<open>
  Destructuring \<^verbatim>\<open>const { a, b = dflt } = request.params.arguments\<close>: a TypeError when the
  arguments are \<^verbatim>\<open>undefined\<close> or \<^verbatim>\<open>null\<close>; a default applies to \<^verbatim>\<open>undefined\<close> only.
\<close>

definition arguments_ok :: "jsval \<Rightarrow> bool" where
  "arguments_ok args = (args \<noteq> JUndefined \<and> args \<noteq> JNull)"

definition field :: "jsval \<Rightarrow> string \<Rightarrow> jsval" where
  "field v k = (case js_get v k of Inr x \<Rightarrow> x | Inl e \<Rightarrow> JUndefined)"

definition field_default :: "jsval \<Rightarrow> string \<Rightarrow> jsval \<Rightarrow> jsval" where
  "field_default v k dflt = (if field v k = JUndefined then dflt else field v k)"

text \<open>\<^verbatim>\<open>accountId || getDefaultAccountId()\<close>.\<close>

definition target_account :: "jsval \<Rightarrow> world \<Rightarrow> error + jsval" where
  "target_account accountId w = (if truthy accountId then Inr accountId else getDefaultAccountId w)"

definition position_json :: "Position \<Rightarrow> jsval" where
  "position_json p =
     JObj [(''id'', JNum (pos_id p)), (''accountId'', JNum (pos_accountId p)),
           (''contractId'', JNum (pos_contractId p)), (''symbol'', JStr (pos_symbol p)),
           (''quantity'', JNum (pos_quantity p)), (''side'', JStr (pos_side p)),
           (''averagePrice'', JNum (pos_averagePrice p)),
           (''unrealizedPnl'', JNum (pos_unrealizedPnl p)),
           (''realizedPnl'', JNum (pos_realizedPnl p)), (''openTime'', JStr (pos_openTime p))]"

definition opt_num :: "string \<Rightarrow> int option \<Rightarrow> (string \<times> jsval) list" where
  "opt_num k v = (case v of None \<Rightarrow> [] | Some n \<Rightarrow> [(k, JNum n)])"

definition order_json :: "Order \<Rightarrow> jsval" where
  "order_json x =
     JObj ([(''id'', JNum (ord_id x)), (''accountId'', JNum (ord_accountId x)),
            (''contractId'', JNum (ord_contractId x)), (''symbol'', JStr (ord_symbol x)),
            (''side'', JStr (ord_side x)), (''orderType'', JStr (ord_orderType x)),
            (''quantity'', JNum (ord_quantity x))]
           @ opt_num ''price'' (ord_price x) @ opt_num ''stopPrice'' (ord_stopPrice x)
           @ [(''status'', JStr (ord_status x)), (''filledQuantity'', JNum (ord_filledQuantity x))]
           @ opt_num ''averageFilledPrice'' (ord_averageFilledPrice x)
           @ [(''createdAt'', JStr (ord_createdAt x)), (''updatedAt'', JStr (ord_updatedAt x))])"

definition handleGetAccounts :: "jsval \<Rightarrow> world \<Rightarrow> CallToolResult \<times> world" where
  "handleGetAccounts args w =
     catching ''Failed to get accounts: ''
       (Inr (createToolResult
          (JObj [(''accounts'', JArr (object_values (accountsCache w))),
                 (''count'', JNum (int (length (object_values (accountsCache w)))))])), w)"

definition handleGetContractDetails :: "jsval \<Rightarrow> world \<Rightarrow> CallToolResult \<times> world" where
  "handleGetContractDetails args w =
     catching ''Failed to get contract details: ''
       (if \<not> arguments_ok args then (Inl TypeError, w)
        else
          (let symbol = field args ''symbol'' in
           if \<not> truthy symbol then (Inr (createErrorResult [Lit ''Symbol is required'']), w)
           else
             (case getContractBySymbol symbol w of
                (Inl e, w1) \<Rightarrow> (Inl e, w1)
              | (Inr contract, w1) \<Rightarrow>
                  if \<not> truthy contract
                  then (Inr (createErrorResult [Lit ''Contract not found: '', Val symbol]), w1)
                  else (Inr (createToolResult contract), w1))))"

text \<open>
  \<^verbatim>\<open>contracts.slice(0, limit)\<close>: on an array or a string; anything else has no
  \<^verbatim>\<open>slice\<close>. The end index is \<open>limit\<close> as an integer (NaN is 0), from the end when negative.
\<close>

definition slice_end :: "nat \<Rightarrow> jsval \<Rightarrow> nat" where
  "slice_end len limit =
     (case js_to_number limit of
        None \<Rightarrow> 0
      | Some n \<Rightarrow> if n < 0 then nat (int len + n) else nat n)"

definition js_slice0 :: "jsval \<Rightarrow> jsval \<Rightarrow> error + jsval" where
  "js_slice0 v limit =
     (case v of
        JArr xs \<Rightarrow> Inr (JArr (take (slice_end (length xs) limit) xs))
      | JStr s \<Rightarrow> Inr (JStr (take (slice_end (length s) limit) s))
      | _ \<Rightarrow> Inl TypeError)"

definition handleSearchContracts :: "jsval \<Rightarrow> world \<Rightarrow> CallToolResult \<times> world" where
  "handleSearchContracts args w =
     catching ''Failed to search contracts: ''
       (if \<not> arguments_ok args then (Inl TypeError, w)
        else
          (let searchText = field args ''searchText'';
               limit = field_default args ''limit'' (JNum 10)
           in
           if \<not> truthy searchText then (Inr (createErrorResult [Lit ''Search text is required'']), w)
           else
             (case topstepxRequest ''POST'' ''/Contract/search'' (contract_search searchText) w of
                (Inl e, w1) \<Rightarrow> (Inl e, w1)
              | (Inr contracts, w1) \<Rightarrow>
                  (case (js_slice0 contracts limit, js_get contracts ''length'') of
                     (Inr sliced, Inr n) \<Rightarrow>
                       (Inr (createToolResult (JObj [(''contracts'', sliced), (''count'', n)])), w1)
                   | _ \<Rightarrow> (Inl TypeError, w1)))))"

definition handleListPositions :: "jsval \<Rightarrow> world \<Rightarrow> CallToolResult \<times> world" where
  "handleListPositions args w =
     catching ''Failed to list positions: ''
       (if \<not> arguments_ok args then (Inl TypeError, w)
        else
          (case getPositions (field args ''accountId'') w of
             (Inl e, w1) \<Rightarrow> (Inl e, w1)
           | (Inr positions, w1) \<Rightarrow>
               (Inr (createToolResult
                  (JObj [(''positions'', JArr (map position_json positions)),
                         (''count'', JNum (int (length positions)))])), w1)))"

text \<open>\<^verbatim>\<open>handlePlaceOrder\<close> (lines 264-326).\<close>

definition handlePlaceOrder :: "jsval \<Rightarrow> world \<Rightarrow> CallToolResult \<times> world" where
  "handlePlaceOrder args w =
     catching ''Failed to place order: ''
       (if \<not> arguments_ok args then (Inl TypeError, w)
        else
          (let symbol = field args ''symbol'';
               side = field args ''side'';
               quantity = field args ''quantity'';
               orderType = field_default args ''orderType'' (JStr ''Market'');
               price = field args ''price'';
               stopPrice = field args ''stopPrice'';
               accountId = field args ''accountId'';
               timeInForce = field_default args ''timeInForce'' (JStr ''Day'')
           in
           if \<not> truthy symbol \<or> \<not> truthy side \<or> \<not> truthy quantity
           then (Inr (createErrorResult [Lit ''Symbol, side, and quantity are required'']), w)
           else
             (case getContractBySymbol symbol w of
                (Inl e, w1) \<Rightarrow> (Inl e, w1)
              | (Inr contract, w1) \<Rightarrow>
                  if \<not> truthy contract
                  then (Inr (createErrorResult [Lit ''Contract not found: '', Val symbol]), w1)
                  else
                    (case target_account accountId w1 of
                       Inl e \<Rightarrow> (Inl e, w1)
                     | Inr targetAccountId \<Rightarrow>
                         if \<not> truthy targetAccountId
                         then (Inr (createErrorResult
                                 [Lit ''No account ID provided and no default account available'']), w1)
                         else
                           (let orderRequest =
                                  [(''accountId'', targetAccountId),
                                   (''contractId'', field contract ''id''),
                                   (''side'', side), (''orderType'', orderType),
                                   (''quantity'', quantity), (''timeInForce'', timeInForce)];
                                wantsPrice = (orderType = JStr ''Limit'' \<or> orderType = JStr ''StopLimit'');
                                wantsStop = (orderType = JStr ''Stop'' \<or> orderType = JStr ''StopLimit'')
                            in
                            if wantsPrice \<and> \<not> truthy price
                            then (Inr (createErrorResult [Lit ''Price is required for Limit orders'']), w1)
                            else if wantsStop \<and> \<not> truthy stopPrice
                            then (Inr (createErrorResult [Lit ''Stop price is required for Stop orders'']), w1)
                            else
                              (case topstepxRequest ''POST'' ''/Order/place''
                                      (JObj (orderRequest
                                             @ (if wantsPrice then [(''price'', price)] else [])
                                             @ (if wantsStop then [(''stopPrice'', stopPrice)] else [])))
                                      w1 of
                                 (Inl e, w2) \<Rightarrow> (Inl e, w2)
                               | (Inr response, w2) \<Rightarrow>
                                   (Inr (createToolResult
                                      (JObj [(''success'', JBool True), (''order'', response)])), w2)))))))"

text \<open>\<^verbatim>\<open>positions.find(p => p.symbol === symbol)\<close>; \<open>None\<close> is \<^verbatim>\<open>undefined\<close>.\<close>

definition find_position :: "jsval \<Rightarrow> Position list \<Rightarrow> Position option" where
  "find_position symbol positions = find (\<lambda>p. JStr (pos_symbol p) = symbol) positions"

text \<open>\<^verbatim>\<open>handleClosePosition\<close> (lines 328-365).\<close>

definition handleClosePosition :: "jsval \<Rightarrow> world \<Rightarrow> CallToolResult \<times> world" where
  "handleClosePosition args w =
     catching ''Failed to close position: ''
       (if \<not> arguments_ok args then (Inl TypeError, w)
        else
          (let symbol = field args ''symbol'';
               accountId = field args ''accountId'';
               quantity = field args ''quantity''
           in
           if \<not> truthy symbol then (Inr (createErrorResult [Lit ''Symbol is required'']), w)
           else
             (case getContractBySymbol symbol w of
                (Inl e, w1) \<Rightarrow> (Inl e, w1)
              | (Inr contract, w1) \<Rightarrow>
                  if \<not> truthy contract
                  then (Inr (createErrorResult [Lit ''Contract not found: '', Val symbol]), w1)
                  else
                    (case getPositions accountId w1 of
                       (Inl e, w2) \<Rightarrow> (Inl e, w2)
                     | (Inr positions, w2) \<Rightarrow>
                         (case find_position symbol positions of
                            None \<Rightarrow>
                              (Inr (createErrorResult
                                 [Lit ''No open position found for '', Val symbol]), w2)
                          | Some position \<Rightarrow>
                              (case topstepxRequest ''POST'' ''/Position/close-partial''
                                      (JObj [(''positionId'', JNum (pos_id position)),
                                             (''quantity'',
                                              js_or quantity (JNum (pos_quantity position)))])
                                      w2 of
                                 (Inl e, w3) \<Rightarrow> (Inl e, w3)
                               | (Inr response, w3) \<Rightarrow>
                                   (Inr (createToolResult
                                      (JObj [(''success'', JBool True),
                                             (''closedPosition'', response)])), w3)))))))"

definition opt_field :: "string \<Rightarrow> jsval \<Rightarrow> (string \<times> jsval) list" where
  "opt_field k v = (if v \<noteq> JUndefined then [(k, v)] else [])"

definition handleModifyOrder :: "jsval \<Rightarrow> world \<Rightarrow> CallToolResult \<times> world" where
  "handleModifyOrder args w =
     catching ''Failed to modify order: ''
       (if \<not> arguments_ok args then (Inl TypeError, w)
        else
          (let orderId = field args ''orderId'' in
           if \<not> truthy orderId then (Inr (createErrorResult [Lit ''Order ID is required'']), w)
           else
             (case topstepxRequest ''POST'' ''/Order/modify''
                     (JObj ([(''orderId'', orderId)]
                            @ opt_field ''quantity'' (field args ''quantity'')
                            @ opt_field ''price'' (field args ''price'')
                            @ opt_field ''stopPrice'' (field args ''stopPrice''))) w of
                (Inl e, w1) \<Rightarrow> (Inl e, w1)
              | (Inr response, w1) \<Rightarrow>
                  (Inr (createToolResult
                     (JObj [(''success'', JBool True), (''order'', response)])), w1))))"

definition handleCancelOrder :: "jsval \<Rightarrow> world \<Rightarrow> CallToolResult \<times> world" where
  "handleCancelOrder args w =
     catching ''Failed to cancel order: ''
       (if \<not> arguments_ok args then (Inl TypeError, w)
        else
          (let orderId = field args ''orderId'' in
           if \<not> truthy orderId then (Inr (createErrorResult [Lit ''Order ID is required'']), w)
           else
             (case topstepxRequest ''POST'' ''/Order/cancel'' (JObj [(''orderId'', orderId)]) w of
                (Inl e, w1) \<Rightarrow> (Inl e, w1)
              | (Inr response, w1) \<Rightarrow>
                  (Inr (createToolResult
                     (JObj [(''success'', JBool True), (''cancelled'', response)])), w1))))"

definition handleListOrders :: "jsval \<Rightarrow> world \<Rightarrow> CallToolResult \<times> world" where
  "handleListOrders args w =
     catching ''Failed to list orders: ''
       (if \<not> arguments_ok args then (Inl TypeError, w)
        else
          (case getOrders (field args ''accountId'') (field_default args ''onlyOpen'' (JBool True)) w of
             (Inl e, w1) \<Rightarrow> (Inl e, w1)
           | (Inr orders, w1) \<Rightarrow>
               (Inr (createToolResult
                  (JObj [(''orders'', JArr (map order_json orders)),
                         (''count'', JNum (int (length orders)))])), w1)))"

text \<open>\<^verbatim>\<open>positions.reduce((sum, pos) => sum + (pos.<k> || 0), 0)\<close> on typed positions.\<close>

definition total_pnl :: "(Position \<Rightarrow> int) \<Rightarrow> Position list \<Rightarrow> int" where
  "total_pnl k positions = foldl (\<lambda>sum pos. sum + k pos) 0 positions"

definition handleGetAccountSummary :: "jsval \<Rightarrow> world \<Rightarrow> CallToolResult \<times> world" where
  "handleGetAccountSummary args w =
     catching ''Failed to get account summary: ''
       (if \<not> arguments_ok args then (Inl TypeError, w)
        else
          (case target_account (field args ''accountId'') w of
             Inl e \<Rightarrow> (Inl e, w)
           | Inr targetAccountId \<Rightarrow>
               if \<not> truthy targetAccountId
               then (Inr (createErrorResult
                       [Lit ''No account ID provided and no default account available'']), w)
               else
                 (let account = object_get_via (accountsProto w) (accountsCache w)
                                  (js_to_string targetAccountId) in
                  if \<not> truthy account
                  then (Inr (createErrorResult [Lit ''Account not found: '', Val targetAccountId]), w)
                  else
                    (case getPositions targetAccountId w of
                       (Inl e, w1) \<Rightarrow> (Inl e, w1)
                     | (Inr positions, w1) \<Rightarrow>
                         (case getOrders targetAccountId (JBool True) w1 of
                            (Inl e, w2) \<Rightarrow> (Inl e, w2)
                          | (Inr openOrders, w2) \<Rightarrow>
                              (let totalUnrealizedPnl = total_pnl pos_unrealizedPnl positions;
                                   totalRealizedPnl = total_pnl pos_realizedPnl positions
                               in
                               (Inr (createToolResult
                                  (JObj [(''account'', account),
                                         (''positions'',
                                          JObj [(''count'', JNum (int (length positions))),
                                                (''totalUnrealizedPnl'', JNum totalUnrealizedPnl),
                                                (''totalRealizedPnl'', JNum totalRealizedPnl)]),
                                         (''openOrders'', JNum (int (length openOrders))),
                                         (''summary'',
                                          JObj [(''balance'', field account ''balance''),
                                                (''canTrade'', field account ''canTrade''),
                                                (''totalPnl'',
                                                 JNum (totalUnrealizedPnl + totalRealizedPnl))])])),
                                w2)))))))"

text \<open>
  \<^verbatim>\<open>bars[bars.length - 1]\<close>. The two market-data handlers take the library's
  \<^verbatim>\<open>Date.prototype.toISOString\<close>, on a time in milliseconds, as the parameter \<open>toISOString\<close>.
\<close>

definition js_last :: "jsval \<Rightarrow> jsval" where
  "js_last bars =
     field bars (number_to_string (map_option (\<lambda>n. n - 1) (js_to_number (field bars ''length''))))"

definition handleGetMarketData :: "(int \<Rightarrow> string) \<Rightarrow> jsval \<Rightarrow> world \<Rightarrow> CallToolResult \<times> world" where
  "handleGetMarketData toISOString args w =
     catching ''Failed to get market data: ''
       (if \<not> arguments_ok args then (Inl TypeError, w)
        else
          (let symbol = field args ''symbol'' in
           if \<not> truthy symbol then (Inr (createErrorResult [Lit ''Symbol is required'']), w)
           else
             (case getContractBySymbol symbol w of
                (Inl e, w1) \<Rightarrow> (Inl e, w1)
              | (Inr contract, w1) \<Rightarrow>
                  if \<not> truthy contract
                  then (Inr (createErrorResult [Lit ''Contract not found: '', Val symbol]), w1)
                  else
                    (case topstepxRequest ''POST'' ''/MarketData/retrieve-bars''
                            (JObj [(''contractId'', field contract ''id''),
                                   (''startTime'', JStr (toISOString (now w1 - 60 * 1000))),
                                   (''endTime'', JStr (toISOString (now w1))),
                                   (''barType'', JStr ''1min'')]) w1 of
                       (Inl e, w2) \<Rightarrow> (Inl e, w2)
                     | (Inr bars, w2) \<Rightarrow>
                         if has_first bars
                         then (Inr (createToolResult
                                 (JObj [(''symbol'', symbol),
                                        (''contract'',
                                         JObj [(''id'', field contract ''id''),
                                               (''name'', field contract ''name'')]),
                                        (''latestBar'', js_last bars),
                                        (''timestamp'', JStr (toISOString (now w2)))])), w2)
                         else (Inr (createErrorResult
                                 [Lit ''No market data available for '', Val symbol]), w2)))))"

definition handleGetBars :: "jsval \<Rightarrow> world \<Rightarrow> CallToolResult \<times> world" where
  "handleGetBars args w =
     catching ''Failed to get bars: ''
       (if \<not> arguments_ok args then (Inl TypeError, w)
        else
          (let symbol = field args ''symbol'';
               startTime = field args ''startTime'';
               endTime = field args ''endTime'';
               barType = field_default args ''barType'' (JStr ''1min'')
           in
           if \<not> truthy symbol \<or> \<not> truthy startTime \<or> \<not> truthy endTime
           then (Inr (createErrorResult [Lit ''Symbol, startTime, and endTime are required'']), w)
           else
             (case getContractBySymbol symbol w of
                (Inl e, w1) \<Rightarrow> (Inl e, w1)
              | (Inr contract, w1) \<Rightarrow>
                  if \<not> truthy contract
                  then (Inr (createErrorResult [Lit ''Contract not found: '', Val symbol]), w1)
                  else
                    (case topstepxRequest ''POST'' ''/MarketData/retrieve-bars''
                            (JObj [(''contractId'', field contract ''id''),
                                   (''startTime'', startTime), (''endTime'', endTime),
                                   (''barType'', barType)]) w1 of
                       (Inl e, w2) \<Rightarrow> (Inl e, w2)
                     | (Inr bars, w2) \<Rightarrow>
                         (case js_get bars ''length'' of
                            Inl e \<Rightarrow> (Inl e, w2)
                          | Inr n \<Rightarrow>
                              (Inr (createToolResult
                                 (JObj [(''symbol'', symbol), (''barType'', barType),
                                        (''bars'', bars), (''count'', n)])), w2))))))"

definition handleGetCommonContracts :: "jsval \<Rightarrow> world \<Rightarrow> CallToolResult \<times> world" where
  "handleGetCommonContracts args w =
     catching ''Failed to get common contracts: ''
       (Inr (createToolResult
          (JObj [(''contracts'', JArr (object_values (contractsCache w))),
                 (''symbols'', JArr (map JStr (object_keys (contractsCache w))))])), w)"

section \<open>index.ts\<close>

text \<open>
  The tool dispatcher (the \<^verbatim>\<open>CallToolRequestSchema\<close> handler): \<open>name\<close> is
  \<^verbatim>\<open>request.params.name\<close> and \<open>args\<close> is \<^verbatim>\<open>request.params.arguments\<close>. No handler throws,
  so the dispatcher's own \<^verbatim>\<open>catch\<close> is never entered. The resource handlers, which only
  read the account cache and call \<^verbatim>\<open>getPositions\<close>, and the stdio transport are left out.
\<close>

definition callTool :: "(int \<Rightarrow> string) \<Rightarrow> string \<Rightarrow> jsval \<Rightarrow> world \<Rightarrow> CallToolResult \<times> world" where
  "callTool toISOString name args w =
     (if name = ''get_accounts'' then handleGetAccounts args w
      else if name = ''get_contract_details'' then handleGetContractDetails args w
      else if name = ''search_contracts'' then handleSearchContracts args w
      else if name = ''get_common_contracts'' then handleGetCommonContracts args w
      else if name = ''list_positions'' then handleListPositions args w
      else if name = ''place_order'' then handlePlaceOrder args w
      else if name = ''close_position'' then handleClosePosition args w
      else if name = ''modify_order'' then handleModifyOrder args w
      else if name = ''cancel_order'' then handleCancelOrder args w
      else if name = ''list_orders'' then handleListOrders args w
      else if name = ''get_account_summary'' then handleGetAccountSummary args w
      else if name = ''get_market_data'' then handleGetMarketData toISOString args w
      else if name = ''get_bars'' then handleGetBars args w
      else (\<lparr>content = Plain [Lit ''Unknown tool: '', Val (JStr name)], isError = True\<rparr>, w))"

text \<open>The \<^verbatim>\<open>required\<close> list of each tool's input schema (the \<^verbatim>\<open>ListToolsRequestSchema\<close> handler).\<close>

definition required_fields :: "string \<Rightarrow> string list" where
  "required_fields name =
     (if name = ''get_contract_details'' then [''symbol'']
      else if name = ''search_contracts'' then [''searchText'']
      else if name = ''place_order'' then [''symbol'', ''side'', ''quantity'']
      else if name = ''close_position'' then [''symbol'']
      else if name = ''modify_order'' then [''orderId'']
      else if name = ''cancel_order'' then [''orderId'']
      else if name = ''get_market_data'' then [''symbol'']
      else if name = ''get_bars'' then [''symbol'', ''startTime'', ''endTime'']
      else [])"

text \<open>The state of the modules when the process starts (\<^verbatim>\<open>auth.ts\<close> 9-11, \<^verbatim>\<open>data.ts\<close> 10-12).\<close>

definition initial_world :: "(string \<rightharpoonup> string) \<Rightarrow> (call list \<Rightarrow> reply \<times> nat) \<Rightarrow> int \<Rightarrow> world" where
  "initial_world e r t =
     \<lparr>env = e, remote = r, now = t, authToken = None, tokenExpiry = None, axiosInstance = None,
      accountsCache = [], accountsProto = None, contractsCache = [], symbolToContractIdMap = [],
      calls = []\<rparr>"

section \<open>Vocabulary of the claims\<close>

text \<open>The calls issued between two states of the process.\<close>

definition issued :: "world \<Rightarrow> world \<Rightarrow> call list" where
  "issued w w' = drop (length (calls w)) (calls w')"

text \<open>A call with the given path was issued between two states.\<close>

definition sent :: "string \<Rightarrow> world \<Rightarrow> world \<Rightarrow> bool" where
  "sent p w w' = (p \<in> path ` set (issued w w'))"

text \<open>\<^verbatim>\<open>!username || !apiKey\<close> is false: both credentials are set and non-empty.\<close>

definition has_credentials :: "(string \<rightharpoonup> string) \<Rightarrow> bool" where
  "has_credentials e =
     (case (username_of e, apiKey_of e) of
        (Some username, Some apiKey) \<Rightarrow> username \<noteq> [] \<and> apiKey \<noteq> []
      | _ \<Rightarrow> False)"

text \<open>
  What holds of the session variables in every state the server reaches (lemma
  \<open>reachable_session_inv\<close>): a stored token is truthy and was obtained with the credentials
  of the environment, together with an expiry and an axios instance.
\<close>

definition session_inv :: "world \<Rightarrow> bool" where
  "session_inv w =
     (case authToken w of
        None \<Rightarrow> True
      | Some t \<Rightarrow> truthy t \<and> has_credentials (env w) \<and> tokenExpiry w \<noteq> None \<and> axiosInstance w \<noteq> None)"

text \<open>No session token exists, or the stored expiry has passed.\<close>

definition session_lapsed :: "world \<Rightarrow> bool" where
  "session_lapsed w =
     (authToken w = None \<or> (case tokenExpiry w of None \<Rightarrow> False | Some expiry \<Rightarrow> expiry < now w))"

text \<open>
  The states the server reaches: from the initial state by logging in (\<^verbatim>\<open>initialize\<close>),
  refreshing the cache (at start and on the timer), handling tool calls, and the passing
  of time. Operations run one at a time; interleavings at \<^verbatim>\<open>await\<close> are not modelled.
\<close>

inductive reachable :: "world \<Rightarrow> bool" where
  start: "reachable (initial_world e r t)"
| login: "reachable w \<Longrightarrow> reachable (snd (authenticate w))"
| refresh: "reachable w \<Longrightarrow> reachable (snd (initializeData w))"
| tool: "reachable w \<Longrightarrow> reachable (snd (callTool toISOString name args w))"
| tick: "reachable w \<Longrightarrow> reachable (w\<lparr>now := now w + int d\<rparr>)"

text \<open>
  The read \<^verbatim>\<open>contractsCache[symbol]\<close> is truthy (line 90): the cache holds a truthy entry
  for the symbol, or it holds none and \<^verbatim>\<open>Object.prototype\<close> defines the name.
\<close>

definition cached :: "jsval \<Rightarrow> world \<Rightarrow> bool" where
  "cached symbol w = truthy (object_get (contractsCache w) (js_to_string symbol))"

text \<open>The Gateway's call for a contract search.\<close>

definition search_call :: "string \<Rightarrow> jsval \<Rightarrow> jsval \<Rightarrow> call" where
  "search_call base token symbol =
     Call base (Some token) ''POST'' ''/Contract/search'' (contract_search symbol)"

text \<open>What \<^verbatim>\<open>handlePlaceOrder\<close> reads of the order type (lines 270, 302 and 309).\<close>

definition order_type :: "jsval \<Rightarrow> jsval" where
  "order_type args = field_default args ''orderType'' (JStr ''Market'')"

definition wants_price :: "jsval \<Rightarrow> bool" where
  "wants_price args = (order_type args = JStr ''Limit'' \<or> order_type args = JStr ''StopLimit'')"

definition wants_stop :: "jsval \<Rightarrow> bool" where
  "wants_stop args = (order_type args = JStr ''Stop'' \<or> order_type args = JStr ''StopLimit'')"

text \<open>
  The checks of \<^verbatim>\<open>handlePlaceOrder\<close> before the price is validated have passed (lines
  277-291): the required fields are truthy, the contract resolves and so does the account.
\<close>

definition place_order_ready :: "jsval \<Rightarrow> world \<Rightarrow> jsval \<Rightarrow> world \<Rightarrow> jsval \<Rightarrow> bool" where
  "place_order_ready args w contract w1 a =
     (arguments_ok args
      \<and> truthy (field args ''symbol'') \<and> truthy (field args ''side'') \<and> truthy (field args ''quantity'')
      \<and> getContractBySymbol (field args ''symbol'') w = (Inr contract, w1) \<and> truthy contract
      \<and> target_account (field args ''accountId'') w1 = Inr a \<and> truthy a)"

section \<open>Concrete scenarios\<close>

text \<open>Environments, remote platforms and states at which the theorems are instantiated.\<close>

definition creds_env :: "string \<rightharpoonup> string" where
  "creds_env = [''TOPSTEPX_USERNAME'' \<mapsto> ''trader'', ''TOPSTEPX_API_KEY'' \<mapsto> ''secret'']"

definition startup_ok :: reply where
  "startup_ok = Resolve (JObj [(''success'', JBool True), (''token'', JStr ''T0'')])"

definition login_ok :: reply where
  "login_ok = Resolve (JObj [(''success'', JBool True), (''token'', JStr ''T1'')])"

definition always :: "reply \<Rightarrow> call list \<Rightarrow> reply \<times> nat" where
  "always r cs = (r, 1)"

definition relogin_fails :: "call list \<Rightarrow> reply \<times> nat" where
  "relogin_fails cs = (if bearer (last cs) = None then (Reject 500 JNull, 1) else (Reject 401 JNull, 1))"

definition expired_once :: "jsval \<Rightarrow> call list \<Rightarrow> reply \<times> nat" where
  "expired_once body cs =
     (if bearer (last cs) = None then (login_ok, 1)
      else if length cs = 1 then (Reject 401 JNull, 1)
      else (Resolve body, 1))"

definition server_error :: "call list \<Rightarrow> reply \<times> nat" where
  "server_error cs = (Reject 500 JNull, 1)"

definition envelope_failure :: "call list \<Rightarrow> reply \<times> nat" where
  "envelope_failure cs =
     (Resolve (JObj [(''success'', JBool False), (''errorMessage'', JStr ''rejected'')]), 1)"

text \<open>
  The state after the login at start has been granted token \<^verbatim>\<open>T0\<close>; from then on the remote
  platform answers as \<open>r\<close> does on the calls that follow that login. Then an initial state
  without credentials and one with.
\<close>

definition after_login :: "(call list \<Rightarrow> reply \<times> nat) \<Rightarrow> call list \<Rightarrow> reply \<times> nat" where
  "after_login r cs = (if length cs \<le> 1 then (startup_ok, 1) else r (tl cs))"

definition live_session :: "(call list \<Rightarrow> reply \<times> nat) \<Rightarrow> world" where
  "live_session r = snd (authenticate (initial_world creds_env (after_login r) 0))"

definition no_credentials_world :: world where
  "no_credentials_world = initial_world Map.empty (\<lambda>cs. (login_ok, 5)) 1000"

definition fresh_world :: world where
  "fresh_world = initial_world creds_env (\<lambda>cs. (login_ok, 5)) 1000"

text \<open>Requests, contracts and accounts.\<close>

definition cancel_body :: jsval where
  "cancel_body = JObj [(''orderId'', JNum 7)]"

definition session_call :: call where
  "session_call = Call ''https://api.topstepx.com/api'' (Some (JStr ''T0'')) ''POST'' ''/Order/cancel'' cancel_body"

definition mes_contract :: jsval where
  "mes_contract = JObj [(''id'', JNum 1), (''symbol'', JStr ''MES'')]"

definition zzz_contract :: jsval where
  "zzz_contract = JObj [(''id'', JNum 42), (''symbol'', JStr ''ZZZ'')]"

definition zzz_envelope :: jsval where
  "zzz_envelope = JObj [(''success'', JBool True), (''data'', JArr [zzz_contract])]"

definition account7 :: jsval where
  "account7 = JObj [(''id'', JNum 7), (''name'', JStr ''old'')]"

definition account9 :: jsval where
  "account9 = JObj [(''id'', JNum 9), (''name'', JStr ''new'')]"

definition accounts_envelope :: jsval where
  "accounts_envelope = JObj [(''success'', JBool True), (''accounts'', JArr [account9])]"

definition order_args :: "(string \<times> jsval) list \<Rightarrow> jsval" where
  "order_args extra =
     JObj ([(''symbol'', JStr ''MES''), (''side'', JStr ''Buy''), (''quantity'', JNum 1),
            (''accountId'', JNum 9)] @ extra)"

text \<open>
  A live session with account 7 in the cache, and one in which MES has been looked up and
  is cached.
\<close>

definition with_accounts :: "(string \<times> jsval) list \<Rightarrow> world \<Rightarrow> world" where
  "with_accounts cache w = w\<lparr>accountsCache := cache\<rparr>"

definition mes_found :: "call list \<Rightarrow> reply \<times> nat" where
  "mes_found = always (Resolve (JArr [mes_contract]))"

definition armed :: world where
  "armed = snd (getContractBySymbol (JStr ''MES'') (live_session mes_found))"

section \<open>The session and the Gateway\<close>

lemma axios_request_world:
  "axios_request c w = (r, w') \<Longrightarrow>
     w' = w\<lparr>now := now w + int (snd (remote w (calls w @ [c]))), calls := calls w @ [c]\<rparr>"
  by (auto simp: axios_request_def split: prod.splits)

lemma authenticate_no_credentials:
  "\<not> has_credentials (env w) \<Longrightarrow> authenticate w = (Inl credentials_error, w)"
  by (auto simp: authenticate_def has_credentials_def split: option.splits)

lemma authenticate_calls:
  "authenticate w = (r, w') \<Longrightarrow> calls w' =
     (case (username_of (env w), apiKey_of (env w)) of
        (Some u, Some k) \<Rightarrow> if u = [] \<or> k = [] then calls w else calls w @ [login_call (env w) u k]
      | _ \<Rightarrow> calls w)"
  by (auto simp: authenticate_def split: option.splits prod.splits sum.splits if_splits
      dest!: axios_request_world)

lemma authenticate_failure_frame:
  "authenticate w = (Inl e, w') \<Longrightarrow> authToken w' = authToken w \<and> tokenExpiry w' = tokenExpiry w
     \<and> axiosInstance w' = axiosInstance w"
  by (auto simp: authenticate_def split: option.splits prod.splits sum.splits if_splits
      dest!: axios_request_world)

lemma authenticate_frame:
  "authenticate w = (r, w') \<Longrightarrow> env w' = env w \<and> remote w' = remote w
     \<and> accountsCache w' = accountsCache w \<and> accountsProto w' = accountsProto w
     \<and> contractsCache w' = contractsCache w
     \<and> symbolToContractIdMap w' = symbolToContractIdMap w"
  by (auto simp: authenticate_def split: option.splits prod.splits sum.splits if_splits
      dest!: axios_request_world)

lemma authenticate_success:
  "authenticate w = (Inr u, w') \<Longrightarrow>
     \<exists>t. truthy t \<and> authToken w' = Some t \<and> tokenExpiry w' = Some (now w' + 86400000)
       \<and> axiosInstance w' = Some (getApiUrl (env w), t) \<and> has_credentials (env w)"
  by (auto simp: authenticate_def has_credentials_def split: option.splits prod.splits sum.splits if_splits
      dest!: axios_request_world)

lemma first_response_not_401: "first_response body = Inl e \<Longrightarrow> \<not> is_401 e"
  by (auto simp: first_response_def split: sum.splits if_splits)

lemma topstepxRequest_first_error:
  assumes "ensureAuthenticated w = (Inr u, w1)" "axiosInstance w1 = Some (base, token)"
    and "axios_request (Call base (Some token) m p d) w1 = (Inl e, w2)"
  shows "topstepxRequest m p d w = (if is_401 e then reauthenticate_and_retry m p d w2 else (Inl e, w2))"
  using assms by (simp add: topstepxRequest_def first_attempt_def)

lemma topstepxRequest_first_body:
  assumes "ensureAuthenticated w = (Inr u, w1)" "axiosInstance w1 = Some (base, token)"
    and "axios_request (Call base (Some token) m p d) w1 = (Inr body, w2)"
  shows "topstepxRequest m p d w = (first_response body, w2)"
  using assms first_response_not_401[of body]
  by (auto simp: topstepxRequest_def first_attempt_def split: sum.splits)

lemma issued_axios_request: "axios_request c w = (r, w') \<Longrightarrow> issued w w' = [c]"
  by (auto simp: issued_def dest!: axios_request_world)

lemma ensureAuthenticated_env: "ensureAuthenticated w = (r, w') \<Longrightarrow> env w' = env w"
  by (auto simp: ensureAuthenticated_def split: if_splits dest: authenticate_frame)

text \<open>
  Claim C1, as amended. Take a Gateway request whose session check has passed and whose
  first attempt has been sent. If the attempt is answered 401, the token is cleared and
  \<^verbatim>\<open>authenticate\<close> runs once. When that re-authentication fails, its error is the result, the
  token stays cleared and no retry is sent: the calls issued are the first attempt and at
  most one login. When it succeeds, exactly one retry is sent with the new token (the
  calls are the attempt, one login and the retry), and a failure of the retry, a second
  401 included, is the result. An error of the first attempt other than a 401, and a
  failure reported in the response envelope, is the result at once: the only call issued
  is the first attempt.
\<close>

theorem C1_single_reauth_single_retry:
  assumes "ensureAuthenticated w = (Inr u, w1)"
    and "axiosInstance w1 = Some (base, token)"
    and "axios_request (Call base (Some token) m p d) w1 = (r1, w2)"
  shows
    "(\<forall>b e w3. r1 = Inl (HttpError 401 b) \<and> authenticate (w2\<lparr>authToken := None\<rparr>) = (Inl e, w3) \<longrightarrow>
        topstepxRequest m p d w = (Inl e, w3) \<and> authToken w3 = None
        \<and> (issued w1 w3 = [Call base (Some token) m p d]
           \<or> (\<exists>un k. issued w1 w3 = [Call base (Some token) m p d, login_call (env w) un k])))
     \<and> (\<forall>b u' w3. r1 = Inl (HttpError 401 b) \<and> authenticate (w2\<lparr>authToken := None\<rparr>) = (Inr u', w3) \<longrightarrow>
          (\<exists>token' un k r2 w4.
             authToken w3 = Some token'
             \<and> axios_request (Call (getApiUrl (env w)) (Some token') m p d) w3 = (r2, w4)
             \<and> snd (topstepxRequest m p d w) = w4
             \<and> issued w1 w4 = [Call base (Some token) m p d, login_call (env w) un k,
                               Call (getApiUrl (env w)) (Some token') m p d]
             \<and> (\<forall>e. r2 = Inl e \<longrightarrow> fst (topstepxRequest m p d w) = Inl e)
             \<and> (\<forall>body e. r2 = Inr body \<and> retry_response body = Inl e \<longrightarrow>
                   fst (topstepxRequest m p d w) = Inl e)))
     \<and> (\<forall>e. r1 = Inl e \<and> \<not> is_401 e \<longrightarrow>
          topstepxRequest m p d w = (Inl e, w2) \<and> issued w1 w2 = [Call base (Some token) m p d])
     \<and> (\<forall>body e. r1 = Inr body \<and> first_response body = Inl e \<longrightarrow>
          topstepxRequest m p d w = (Inl e, w2) \<and> issued w1 w2 = [Call base (Some token) m p d])"
proof -
  let ?c = "Call base (Some token) m p d"
  have env1: "env w1 = env w" using assms(1) by (rule ensureAuthenticated_env)
  have w2: "w2 = w1\<lparr>now := now w1 + int (snd (remote w1 (calls w1 @ [?c]))), calls := calls w1 @ [?c]\<rparr>"
    using assms(3) by (rule axios_request_world)
  have env2: "env w2 = env w" using w2 env1 by simp
  have A: "topstepxRequest m p d w = (Inl e, w3) \<and> authToken w3 = None
        \<and> (issued w1 w3 = [?c] \<or> (\<exists>un k. issued w1 w3 = [?c, login_call (env w) un k]))"
    if h1: "r1 = Inl (HttpError 401 b)" and h2: "authenticate (w2\<lparr>authToken := None\<rparr>) = (Inl e, w3)" for b e w3
  proof -
    have "topstepxRequest m p d w = reauthenticate_and_retry m p d w2"
      using topstepxRequest_first_error[OF assms(1,2)] assms(3) h1 by simp
    then have 1: "topstepxRequest m p d w = (Inl e, w3)"
      using h2 by (simp add: reauthenticate_and_retry_def)
    have 2: "authToken w3 = None"
      using authenticate_failure_frame[OF h2] by simp
    have 3: "issued w1 w3 = [?c] \<or> (\<exists>un k. issued w1 w3 = [?c, login_call (env w) un k])"
      using authenticate_calls[OF h2] w2 env2
      by (auto simp: issued_def split: option.splits if_splits)
    show ?thesis using 1 2 3 by simp
  qed
  have B: "\<exists>token' un k r2 w4.
             authToken w3 = Some token'
             \<and> axios_request (Call (getApiUrl (env w)) (Some token') m p d) w3 = (r2, w4)
             \<and> snd (topstepxRequest m p d w) = w4
             \<and> issued w1 w4 = [?c, login_call (env w) un k,
                               Call (getApiUrl (env w)) (Some token') m p d]
             \<and> (\<forall>e. r2 = Inl e \<longrightarrow> fst (topstepxRequest m p d w) = Inl e)
             \<and> (\<forall>body e. r2 = Inr body \<and> retry_response body = Inl e \<longrightarrow>
                   fst (topstepxRequest m p d w) = Inl e)"
    if h1: "r1 = Inl (HttpError 401 b)" and h2: "authenticate (w2\<lparr>authToken := None\<rparr>) = (Inr u', w3)" for b u' w3
  proof -
    have T: "topstepxRequest m p d w = reauthenticate_and_retry m p d w2"
      using topstepxRequest_first_error[OF assms(1,2)] assms(3) h1 by simp
    obtain t where t: "authToken w3 = Some t" "axiosInstance w3 = Some (getApiUrl (env w), t)"
        "has_credentials (env w)"
      using authenticate_success[OF h2] env2 by auto
    let ?c2 = "Call (getApiUrl (env w)) (Some t) m p d"
    obtain r2 w4 where r2: "axios_request ?c2 w3 = (r2, w4)" by (cases "axios_request ?c2 w3")
    obtain un k where uk: "username_of (env w) = Some un" "apiKey_of (env w) = Some k" "un \<noteq> []" "k \<noteq> []"
      using t(3) by (auto simp: has_credentials_def split: option.splits)
    have c3: "calls w3 = calls w1 @ [?c, login_call (env w) un k]"
      using authenticate_calls[OF h2] w2 env2 uk by simp
    have c4: "calls w4 = calls w3 @ [?c2]"
      using axios_request_world[OF r2] by simp
    have R: "topstepxRequest m p d w =
        (case r2 of Inl e \<Rightarrow> (Inl e, w4) | Inr body \<Rightarrow> (retry_response body, w4))"
      using T h2 t(2) r2 by (simp add: reauthenticate_and_retry_def split: sum.splits)
    have "snd (topstepxRequest m p d w) = w4" using R by (simp split: sum.splits)
    moreover have "issued w1 w4 = [?c, login_call (env w) un k, ?c2]"
      using c3 c4 by (simp add: issued_def)
    moreover have "\<forall>e. r2 = Inl e \<longrightarrow> fst (topstepxRequest m p d w) = Inl e" using R by simp
    moreover have "\<forall>body e. r2 = Inr body \<and> retry_response body = Inl e \<longrightarrow>
                   fst (topstepxRequest m p d w) = Inl e" using R by simp
    ultimately show ?thesis using t(1) r2 by blast
  qed
  have C: "topstepxRequest m p d w = (Inl e, w2) \<and> issued w1 w2 = [?c]"
    if h1: "r1 = Inl e" and h2: "\<not> is_401 e" for e
    using topstepxRequest_first_error[OF assms(1,2)] assms(3) h1 h2 issued_axios_request[OF assms(3)]
    by simp
  have D: "topstepxRequest m p d w = (Inl e, w2) \<and> issued w1 w2 = [?c]"
    if h1: "r1 = Inr body" and h2: "first_response body = Inl e" for body e
    using topstepxRequest_first_body[OF assms(1,2)] assms(3) h1 h2 issued_axios_request[OF assms(3)]
    by simp
  show ?thesis using A B C D by blast
qed

lemma live_session_eq:
  "live_session r =
     \<lparr>env = creds_env, remote = after_login r, now = 1, authToken = Some (JStr ''T0''),
      tokenExpiry = Some 86400001,
      axiosInstance = Some (''https://api.topstepx.com/api'', JStr ''T0''),
      accountsCache = [], accountsProto = None, contractsCache = [], symbolToContractIdMap = [],
      calls = [login_call creds_env ''trader'' ''secret'']\<rparr>"
  by (simp add: live_session_def initial_world_def after_login_def startup_ok_def creds_env_def
      authenticate_def axios_request_def username_of_def apiKey_of_def env_or_def getApiUrl_def
      login_call_def)

lemmas scenario_defs = live_session_eq after_login_def creds_env_def login_ok_def relogin_fails_def
  expired_once_def server_error_def envelope_failure_def cancel_body_def session_call_def

lemmas auth_defs = topstepxRequest_def ensureAuthenticated_def needs_login_def first_attempt_def
  reauthenticate_and_retry_def authenticate_def axios_request_def username_of_def apiKey_of_def
  env_or_def login_call_def getApiUrl_def first_response_def retry_response_def js_or_def

text \<open>
  Claim C1 as stated fails: the request is answered 401, the re-authentication is refused
  by the remote platform, and the request is not retried. The log holds the request once.
\<close>

theorem C1_no_retry_when_relogin_fails:
  "fst (axios_request session_call (live_session relogin_fails)) = Inl (HttpError 401 JNull)
   \<and> fst (topstepxRequest ''POST'' ''/Order/cancel'' cancel_body (live_session relogin_fails))
       = Inl (HttpError 500 JNull)
   \<and> issued (live_session relogin_fails)
        (snd (topstepxRequest ''POST'' ''/Order/cancel'' cancel_body (live_session relogin_fails)))
       = [session_call, login_call creds_env ''trader'' ''secret'']"
  by (simp add: auth_defs scenario_defs issued_def)

lemma live_session_ready:
  "ensureAuthenticated (live_session r) = (Inr (), live_session r)"
  "axiosInstance (live_session r) = Some (''https://api.topstepx.com/api'', JStr ''T0'')"
  by (simp_all add: ensureAuthenticated_def needs_login_def live_session_eq)

text \<open>The four cases of the amended claim C1 at concrete remote platforms.\<close>

theorem C1_witness:
  "topstepxRequest ''POST'' ''/Order/cancel'' cancel_body (live_session relogin_fails)
     = (Inl (HttpError 500 JNull),
        snd (authenticate ((snd (axios_request session_call (live_session relogin_fails)))\<lparr>authToken := None\<rparr>)))
   \<and> topstepxRequest ''POST'' ''/Order/cancel'' cancel_body (live_session server_error)
     = (Inl (HttpError 500 JNull), snd (axios_request session_call (live_session server_error)))
   \<and> topstepxRequest ''POST'' ''/Order/cancel'' cancel_body (live_session envelope_failure)
     = (Inl (Error (JStr ''rejected'')), snd (axios_request session_call (live_session envelope_failure)))
   \<and> length (issued (live_session (expired_once JNull))
        (snd (topstepxRequest ''POST'' ''/Order/cancel'' cancel_body (live_session (expired_once JNull))))) = 3"
proof -
  let ?c = "Call ''https://api.topstepx.com/api'' (Some (JStr ''T0'')) ''POST'' ''/Order/cancel'' cancel_body"
  have c: "session_call = ?c"
    by (simp add: session_call_def)
  \<comment> \<open>401, then the login is refused\<close>
  let ?A = "live_session relogin_fails"
  let ?A2 = "(snd (axios_request ?c ?A))\<lparr>authToken := None\<rparr>"
  have a3: "axios_request ?c ?A = (Inl (HttpError 401 JNull), snd (axios_request ?c ?A))"
    by (simp add: axios_request_def scenario_defs)
  have a4: "authenticate ?A2 = (Inl (HttpError 500 JNull), snd (authenticate ?A2))"
    by (simp add: auth_defs scenario_defs)
  note A = C1_single_reauth_single_retry[OF live_session_ready a3, THEN conjunct1, rule_format,
      OF conjI[OF refl a4], THEN conjunct1]
  \<comment> \<open>a 500\<close>
  let ?S = "live_session server_error"
  have s3: "axios_request ?c ?S = (Inl (HttpError 500 JNull), snd (axios_request ?c ?S))"
    by (simp add: axios_request_def scenario_defs)
  have s4: "\<not> is_401 (HttpError 500 JNull)" by simp
  note S = C1_single_reauth_single_retry[OF live_session_ready s3, THEN conjunct2, THEN conjunct2,
      THEN conjunct1, rule_format, OF conjI[OF refl s4], THEN conjunct1]
  \<comment> \<open>an envelope that reports failure\<close>
  let ?E = "live_session envelope_failure"
  let ?b = "JObj [(''success'', JBool False), (''errorMessage'', JStr ''rejected'')]"
  have e3: "axios_request ?c ?E = (Inr ?b, snd (axios_request ?c ?E))"
    by (simp add: axios_request_def scenario_defs)
  have e4: "first_response ?b = Inl (Error (JStr ''rejected''))"
    by (simp add: first_response_def js_or_def)
  note E = C1_single_reauth_single_retry[OF live_session_ready e3, THEN conjunct2, THEN conjunct2,
      THEN conjunct2, rule_format, OF conjI[OF refl e4], THEN conjunct1]
  \<comment> \<open>401, then the login succeeds and the retry is sent\<close>
  let ?X = "live_session (expired_once JNull)"
  let ?X2 = "(snd (axios_request ?c ?X))\<lparr>authToken := None\<rparr>"
  have x3: "axios_request ?c ?X = (Inl (HttpError 401 JNull), snd (axios_request ?c ?X))"
    by (simp add: axios_request_def scenario_defs)
  have x4: "authenticate ?X2 = (Inr (), snd (authenticate ?X2))"
    by (simp add: auth_defs scenario_defs)
  note X0 = C1_single_reauth_single_retry[OF live_session_ready x3, THEN conjunct2, THEN conjunct1,
      rule_format, OF conjI[OF refl x4]]
  from X0 obtain w4 a b c' where
    "snd (topstepxRequest ''POST'' ''/Order/cancel'' cancel_body ?X) = w4" "issued ?X w4 = [a, b, c']"
    by blast
  then have X: "length (issued ?X (snd (topstepxRequest ''POST'' ''/Order/cancel'' cancel_body ?X))) = 3"
    by simp
  show ?thesis using A S E X unfolding c by simp
qed

lemma array_index_name: "\<not> is_digit c \<Longrightarrow> array_index (c # cs) = None"
  by (simp add: array_index_def canonical_nat_def)

lemma array_index_0: "array_index ''0'' = Some 0"
  by (simp add: array_index_def canonical_nat_def parse_nat_def is_digit_def digit_val_def)

lemmas js_eval = array_index_name array_index_0 is_digit_def

text \<open>
  Claim C3 describes the normalisation of lines 124-136, and says it applies to the
  response to the retry as well. The retry (lines 151-155) does not normalise: a flat
  payload, which the first attempt returns unchanged, fails there with
  \<^verbatim>\<open>Request failed\<close>, and an envelope with \<^verbatim>\<open>success: true\<close> and no \<^verbatim>\<open>data\<close>, which the
  first attempt returns whole, yields \<^verbatim>\<open>undefined\<close>.
\<close>

theorem C3_retry_skips_normalisation:
  "first_response (JArr [JObj [(''id'', JNum 1)]]) = Inr (JArr [JObj [(''id'', JNum 1)]])
   \<and> fst (topstepxRequest ''POST'' ''/Contract/search'' (contract_search (JStr ''MES''))
        (live_session (expired_once (JArr [JObj [(''id'', JNum 1)]]))))
       = Inl (Error (JStr ''Request failed''))
   \<and> first_response (JObj [(''success'', JBool True), (''accounts'', JArr [])])
       = Inr (JObj [(''success'', JBool True), (''accounts'', JArr [])])
   \<and> fst (topstepxRequest ''POST'' ''/Account/search'' (JObj [(''onlyActiveAccounts'', JBool True)])
        (live_session (expired_once (JObj [(''success'', JBool True), (''accounts'', JArr [])]))))
       = Inr JUndefined"
  by (simp add: auth_defs scenario_defs contract_search_def js_eval)

text \<open>
  Claim C4, as amended. The base URL depends on the environment flag alone: absent, empty,
  \<^verbatim>\<open>demo\<close> or \<^verbatim>\<open>topstepx\<close> selects the first host, \<^verbatim>\<open>live\<close> the second, and any other
  value the third.
\<close>

theorem C4_getApiUrl_selection:
  "(e ''TOPSTEPX_ENVIRONMENT'' \<in> {None, Some [], Some ''demo'', Some ''topstepx''} \<longrightarrow>
      getApiUrl e = ''https://api.topstepx.com/api'')
   \<and> (e ''TOPSTEPX_ENVIRONMENT'' = Some ''live'' \<longrightarrow>
      getApiUrl e = ''https://gateway-api.s2f.projectx.com/api'')
   \<and> (e ''TOPSTEPX_ENVIRONMENT'' \<notin> {None, Some [], Some ''demo'', Some ''topstepx'', Some ''live''} \<longrightarrow>
      getApiUrl e = ''https://gateway-api-demo.s2f.projectx.com/api'')"
  by (auto simp: getApiUrl_def env_or_def split: option.splits)

text \<open>The three hosts of claim C4 at concrete environments.\<close>

theorem C4_witness:
  "getApiUrl Map.empty = ''https://api.topstepx.com/api''
   \<and> getApiUrl [''TOPSTEPX_ENVIRONMENT'' \<mapsto> ''demo''] = ''https://api.topstepx.com/api''
   \<and> getApiUrl [''TOPSTEPX_ENVIRONMENT'' \<mapsto> ''live''] = ''https://gateway-api.s2f.projectx.com/api''
   \<and> getApiUrl [''TOPSTEPX_ENVIRONMENT'' \<mapsto> ''staging''] = ''https://gateway-api-demo.s2f.projectx.com/api''"
  using C4_getApiUrl_selection[of Map.empty]
    C4_getApiUrl_selection[of "[''TOPSTEPX_ENVIRONMENT'' \<mapsto> ''demo'']"]
    C4_getApiUrl_selection[of "[''TOPSTEPX_ENVIRONMENT'' \<mapsto> ''live'']"]
    C4_getApiUrl_selection[of "[''TOPSTEPX_ENVIRONMENT'' \<mapsto> ''staging'']"]
  by simp

text \<open>
  Claim C4 as stated fails: an absent flag does not fall through to the third host; it is
  defaulted to \<^verbatim>\<open>demo\<close> and selects the first.
\<close>

theorem C4_absent_flag_is_not_third_host:
  "getApiUrl Map.empty = ''https://api.topstepx.com/api''
   \<and> getApiUrl Map.empty \<noteq> ''https://gateway-api-demo.s2f.projectx.com/api''"
  by (simp add: getApiUrl_def env_or_def)

lemma needs_login_lapsed: "session_inv w \<Longrightarrow> needs_login w = session_lapsed w"
  by (auto simp: session_inv_def needs_login_def session_lapsed_def split: option.splits)

lemma authenticate_login:
  assumes "username_of (env w) = Some un" "apiKey_of (env w) = Some k" "un \<noteq> []" "k \<noteq> []"
    and "remote w (calls w @ [login_call (env w) un k]) = (Resolve body, dt)"
    and "js_get body ''success'' = Inr success" "truthy success"
    and "js_get body ''token'' = Inr token" "truthy token"
  shows "authenticate w =
     (Inr (), w\<lparr>now := now w + int dt, calls := calls w @ [login_call (env w) un k],
               authToken := Some token, tokenExpiry := Some (now w + int dt + 24 * 60 * 60 * 1000),
               axiosInstance := Some (getApiUrl (env w), token)\<rparr>)"
proof -
  obtain m where "js_get body ''errorMessage'' = Inr m"
    using assms(6) by (cases body) auto
  then show ?thesis using assms
    by (simp add: authenticate_def axios_request_def)
qed

text \<open>
  Claim C7. In a state of the server (one that satisfies \<open>session_inv\<close>),
  \<^verbatim>\<open>ensureAuthenticated\<close> fails with the credentials error, issuing no call, when the
  credentials are absent; otherwise it issues no call when a token exists and its expiry
  has not passed, and exactly one login call when no token exists or the expiry has
  passed. When that login resolves with a truthy \<^verbatim>\<open>success\<close> and \<^verbatim>\<open>token\<close>, the token is
  stored and the expiry is the time the response arrived plus 24 hours in milliseconds.
\<close>

theorem C7_ensureAuthenticated:
  assumes "session_inv w"
  shows
    "(\<not> has_credentials (env w) \<longrightarrow> ensureAuthenticated w = (Inl credentials_error, w))
     \<and> (has_credentials (env w) \<and> \<not> session_lapsed w \<longrightarrow> ensureAuthenticated w = (Inr (), w))
     \<and> (has_credentials (env w) \<and> session_lapsed w \<longrightarrow>
          (\<exists>un k. username_of (env w) = Some un \<and> apiKey_of (env w) = Some k
             \<and> issued w (snd (ensureAuthenticated w)) = [login_call (env w) un k]))
     \<and> (\<forall>un k body dt success token.
          session_lapsed w
          \<and> username_of (env w) = Some un \<and> un \<noteq> [] \<and> apiKey_of (env w) = Some k \<and> k \<noteq> []
          \<and> remote w (calls w @ [login_call (env w) un k]) = (Resolve body, dt)
          \<and> js_get body ''success'' = Inr success \<and> truthy success
          \<and> js_get body ''token'' = Inr token \<and> truthy token \<longrightarrow>
          fst (ensureAuthenticated w) = Inr ()
          \<and> authToken (snd (ensureAuthenticated w)) = Some token
          \<and> now (snd (ensureAuthenticated w)) = now w + int dt
          \<and> tokenExpiry (snd (ensureAuthenticated w)) = Some (now w + int dt + 24 * 60 * 60 * 1000))"
proof -
  have nl: "needs_login w = session_lapsed w" using assms by (rule needs_login_lapsed)
  have 1: "ensureAuthenticated w = (Inl credentials_error, w)" if h: "\<not> has_credentials (env w)"
  proof -
    have "authToken w = None" using assms h by (auto simp: session_inv_def split: option.splits)
    then have "needs_login w" by (simp add: needs_login_def)
    then show ?thesis using authenticate_no_credentials[OF h] by (simp add: ensureAuthenticated_def)
  qed
  have 2: "ensureAuthenticated w = (Inr (), w)" if "\<not> session_lapsed w"
    using that nl by (simp add: ensureAuthenticated_def)
  have 3: "\<exists>un k. username_of (env w) = Some un \<and> apiKey_of (env w) = Some k
             \<and> issued w (snd (ensureAuthenticated w)) = [login_call (env w) un k]"
    if h: "has_credentials (env w)" and l: "session_lapsed w"
  proof -
    obtain un k where uk: "username_of (env w) = Some un" "apiKey_of (env w) = Some k" "un \<noteq> []" "k \<noteq> []"
      using h by (auto simp: has_credentials_def split: option.splits)
    obtain r w' where a: "authenticate w = (r, w')" by (cases "authenticate w")
    have "calls w' = calls w @ [login_call (env w) un k]"
      using authenticate_calls[OF a] uk by simp
    then have "issued w (snd (ensureAuthenticated w)) = [login_call (env w) un k]"
      using a l nl by (simp add: ensureAuthenticated_def issued_def)
    then show ?thesis using uk by blast
  qed
  have 4: "fst (ensureAuthenticated w) = Inr ()
          \<and> authToken (snd (ensureAuthenticated w)) = Some token
          \<and> now (snd (ensureAuthenticated w)) = now w + int dt
          \<and> tokenExpiry (snd (ensureAuthenticated w)) = Some (now w + int dt + 24 * 60 * 60 * 1000)"
    if "session_lapsed w" "username_of (env w) = Some un" "un \<noteq> []" "apiKey_of (env w) = Some k" "k \<noteq> []"
      "remote w (calls w @ [login_call (env w) un k]) = (Resolve body, dt)"
      "js_get body ''success'' = Inr success" "truthy success"
      "js_get body ''token'' = Inr token" "truthy token"
    for un k body dt success token
    using authenticate_login[OF that(2) that(4) that(3) that(5) that(6) that(7) that(8) that(9) that(10)]
      that(1) nl
    by (simp add: ensureAuthenticated_def)
  show ?thesis using 1 2 3 4 by blast
qed

lemma has_credentials_creds_env: "has_credentials creds_env"
  by (simp add: has_credentials_def creds_env_def username_of_def apiKey_of_def env_or_def)

text \<open>
  Claim C7 at a state without credentials, at a live session, and at the initial state
  with credentials and a remote platform that grants the login after 5 ms.
\<close>

theorem C7_witness:
  "ensureAuthenticated no_credentials_world = (Inl credentials_error, no_credentials_world)
   \<and> ensureAuthenticated (live_session (\<lambda>cs. (login_ok, 5))) = (Inr (), live_session (\<lambda>cs. (login_ok, 5)))
   \<and> issued fresh_world (snd (ensureAuthenticated fresh_world)) = [login_call creds_env ''trader'' ''secret'']
   \<and> authToken (snd (ensureAuthenticated fresh_world)) = Some (JStr ''T1'')
   \<and> tokenExpiry (snd (ensureAuthenticated fresh_world)) = Some (1005 + 86400000)"
proof -
  have i1: "session_inv no_credentials_world"
    by (simp add: session_inv_def no_credentials_world_def initial_world_def)
  have n1: "\<not> has_credentials (env no_credentials_world)"
    by (simp add: has_credentials_def no_credentials_world_def initial_world_def username_of_def
        apiKey_of_def env_or_def)
  note A = C7_ensureAuthenticated[OF i1, THEN conjunct1, rule_format, OF n1]
  let ?L = "live_session (\<lambda>cs. (login_ok, 5))"
  have i2: "session_inv ?L"
    using has_credentials_creds_env by (simp add: session_inv_def live_session_eq)
  have n2: "has_credentials (env ?L) \<and> \<not> session_lapsed ?L"
    using has_credentials_creds_env by (simp add: session_lapsed_def live_session_eq)
  note B = C7_ensureAuthenticated[OF i2, THEN conjunct2, THEN conjunct1, rule_format, OF n2]
  have i3: "session_inv fresh_world"
    by (simp add: session_inv_def fresh_world_def initial_world_def)
  have e3: "env fresh_world = creds_env" by (simp add: fresh_world_def initial_world_def)
  have n3: "has_credentials (env fresh_world) \<and> session_lapsed fresh_world"
    using has_credentials_creds_env by (simp add: session_lapsed_def fresh_world_def initial_world_def)
  have u3: "username_of creds_env = Some ''trader''" "apiKey_of creds_env = Some ''secret''"
    by (simp_all add: creds_env_def username_of_def apiKey_of_def env_or_def)
  from C7_ensureAuthenticated[OF i3, THEN conjunct2, THEN conjunct2, THEN conjunct1, rule_format, OF n3]
  have C: "issued fresh_world (snd (ensureAuthenticated fresh_world)) = [login_call creds_env ''trader'' ''secret'']"
    using u3 e3 by auto
  have h4: "session_lapsed fresh_world
     \<and> username_of (env fresh_world) = Some ''trader'' \<and> ''trader'' \<noteq> []
     \<and> apiKey_of (env fresh_world) = Some ''secret'' \<and> ''secret'' \<noteq> []
     \<and> remote fresh_world (calls fresh_world @ [login_call (env fresh_world) ''trader'' ''secret''])
         = (Resolve (JObj [(''success'', JBool True), (''token'', JStr ''T1'')]), 5)
     \<and> js_get (JObj [(''success'', JBool True), (''token'', JStr ''T1'')]) ''success'' = Inr (JBool True)
     \<and> truthy (JBool True)
     \<and> js_get (JObj [(''success'', JBool True), (''token'', JStr ''T1'')]) ''token'' = Inr (JStr ''T1'')
     \<and> truthy (JStr ''T1'')"
    using n3 u3 e3 by (simp add: fresh_world_def initial_world_def login_ok_def)
  note D = C7_ensureAuthenticated[OF i3, THEN conjunct2, THEN conjunct2, THEN conjunct2, rule_format, OF h4]
  have t: "now fresh_world = 1000" by (simp add: fresh_world_def initial_world_def)
  show ?thesis using A B C D t by simp
qed

lemma path_login_call: "path (login_call e u k) = ''/Auth/loginKey''"
  by (simp add: login_call_def)

lemma bearer_login_call: "bearer (login_call e u k) = None"
  by (simp add: login_call_def)

lemma authenticate_trace:
  "authenticate w = (r, w') \<Longrightarrow>
     \<exists>xs. calls w' = calls w @ xs
        \<and> (\<forall>c\<in>set xs. path c = ''/Auth/loginKey'' \<and> bearer c = None)"
  by (drule authenticate_calls) (auto simp: path_login_call bearer_login_call split: option.splits if_splits)

lemma ensureAuthenticated_trace:
  "ensureAuthenticated w = (r, w') \<Longrightarrow>
     \<exists>xs. calls w' = calls w @ xs
        \<and> (\<forall>c\<in>set xs. path c = ''/Auth/loginKey'' \<and> bearer c = None)"
  by (auto simp: ensureAuthenticated_def split: if_splits dest: authenticate_trace)

lemma ensureAuthenticated_frame:
  "ensureAuthenticated w = (r, w') \<Longrightarrow> env w' = env w \<and> remote w' = remote w
     \<and> accountsCache w' = accountsCache w \<and> accountsProto w' = accountsProto w
     \<and> contractsCache w' = contractsCache w
     \<and> symbolToContractIdMap w' = symbolToContractIdMap w"
  by (auto simp: ensureAuthenticated_def split: if_splits dest: authenticate_frame)

lemma axios_request_frame:
  "axios_request c w = (r, w') \<Longrightarrow> env w' = env w \<and> remote w' = remote w
     \<and> accountsCache w' = accountsCache w \<and> accountsProto w' = accountsProto w
     \<and> contractsCache w' = contractsCache w
     \<and> symbolToContractIdMap w' = symbolToContractIdMap w \<and> authToken w' = authToken w
     \<and> tokenExpiry w' = tokenExpiry w \<and> axiosInstance w' = axiosInstance w"
  by (auto dest!: axios_request_world)

lemma first_attempt_world:
  "first_attempt c w = (r, w') \<Longrightarrow> w' = snd (axios_request c w)"
  by (auto simp: first_attempt_def split: prod.splits sum.splits)

lemma reauthenticate_and_retry_trace:
  assumes "reauthenticate_and_retry m p d w = (r, w')"
  shows "\<exists>xs. calls w' = calls w @ xs
           \<and> (\<forall>c\<in>set xs. path c = ''/Auth/loginKey'' \<and> bearer c = None
                              \<or> path c = p \<and> bearer c \<noteq> None)
           \<and> length (filter (\<lambda>c. bearer c \<noteq> None) xs) \<le> 1"
proof -
  obtain ra w1 where a: "authenticate (w\<lparr>authToken := None\<rparr>) = (ra, w1)"
    by (cases "authenticate (w\<lparr>authToken := None\<rparr>)")
  from authenticate_trace[OF a] obtain xs where
    xs: "calls w1 = calls w @ xs" "\<forall>c\<in>set xs. path c = ''/Auth/loginKey'' \<and> bearer c = None"
    by auto
  have f0: "filter (\<lambda>c. bearer c \<noteq> None) xs = []" using xs(2) by (simp add: filter_empty_conv)
  show ?thesis
  proof (cases ra)
    case (Inl e)
    then have "w' = w1" using assms a by (simp add: reauthenticate_and_retry_def)
    then show ?thesis using xs f0 by auto
  next
    case (Inr u)
    show ?thesis
    proof (cases "axiosInstance w1")
      case None
      then have "w' = w1" using assms a Inr by (simp add: reauthenticate_and_retry_def)
      then show ?thesis using xs f0 by auto
    next
      case (Some bt)
      obtain b t where bt: "bt = (b, t)" by (cases bt)
      obtain r2 w2 where r2: "axios_request (Call b (Some t) m p d) w1 = (r2, w2)"
        by (cases "axios_request (Call b (Some t) m p d) w1")
      have "w' = w2" using assms a Inr Some bt r2
        by (auto simp: reauthenticate_and_retry_def split: sum.splits)
      moreover have "calls w2 = calls w @ (xs @ [Call b (Some t) m p d])"
        using axios_request_world[OF r2] xs(1) by simp
      ultimately show ?thesis using xs(2) f0
        by (intro exI[of _ "xs @ [Call b (Some t) m p d]"]) auto
    qed
  qed
qed

lemma reauthenticate_and_retry_frame:
  assumes "reauthenticate_and_retry m p d w = (r, w')"
  shows "env w' = env w \<and> remote w' = remote w
     \<and> accountsCache w' = accountsCache w \<and> accountsProto w' = accountsProto w
     \<and> contractsCache w' = contractsCache w
     \<and> symbolToContractIdMap w' = symbolToContractIdMap w"
proof -
  obtain ra w1 where a: "authenticate (w\<lparr>authToken := None\<rparr>) = (ra, w1)"
    by (cases "authenticate (w\<lparr>authToken := None\<rparr>)")
  note f1 = authenticate_frame[OF a]
  show ?thesis
  proof (cases ra)
    case (Inl e)
    then have "w' = w1" using assms a by (simp add: reauthenticate_and_retry_def)
    then show ?thesis using f1 by simp
  next
    case (Inr u)
    show ?thesis
    proof (cases "axiosInstance w1")
      case None
      then have "w' = w1" using assms a Inr by (simp add: reauthenticate_and_retry_def)
      then show ?thesis using f1 by simp
    next
      case (Some bt)
      obtain b t where bt: "bt = (b, t)" by (cases bt)
      obtain r2 w2 where r2: "axios_request (Call b (Some t) m p d) w1 = (r2, w2)"
        by (cases "axios_request (Call b (Some t) m p d) w1")
      have "w' = w2" using assms a Inr Some bt r2
        by (auto simp: reauthenticate_and_retry_def split: sum.splits)
      then show ?thesis using axios_request_frame[OF r2] f1 by simp
    qed
  qed
qed

lemma topstepxRequest_trace:
  assumes "topstepxRequest m p d w = (r, w')"
  shows "\<exists>xs. calls w' = calls w @ xs
           \<and> (\<forall>c\<in>set xs. path c = ''/Auth/loginKey'' \<and> bearer c = None
                              \<or> path c = p \<and> bearer c \<noteq> None)
           \<and> length (filter (\<lambda>c. bearer c \<noteq> None) xs) \<le> 2"
proof -
  obtain r0 w1 where e: "ensureAuthenticated w = (r0, w1)" by (cases "ensureAuthenticated w")
  from ensureAuthenticated_trace[OF e] obtain xs where
    xs: "calls w1 = calls w @ xs" "\<forall>c\<in>set xs. path c = ''/Auth/loginKey'' \<and> bearer c = None"
    by auto
  have f0: "filter (\<lambda>c. bearer c \<noteq> None) xs = []" using xs(2) by (simp add: filter_empty_conv)
  show ?thesis
  proof (cases r0)
    case (Inl e')
    then have "w' = w1" using assms e by (simp add: topstepxRequest_def)
    then show ?thesis using xs f0 by auto
  next
    case (Inr u)
    show ?thesis
    proof (cases "axiosInstance w1")
      case None
      then have "w' = w1" using assms e Inr by (simp add: topstepxRequest_def)
      then show ?thesis using xs f0 by auto
    next
      case (Some bt)
      obtain b t where bt: "bt = (b, t)" by (cases bt)
      let ?c = "Call b (Some t) m p d"
      obtain r1 w2 where fa: "first_attempt ?c w1 = (r1, w2)" by (cases "first_attempt ?c w1")
      have c2: "calls w2 = calls w @ (xs @ [?c])"
        using first_attempt_world[OF fa] xs(1) by (simp add: axios_request_def split: prod.splits)
      show ?thesis
      proof (cases "\<exists>e'. r1 = Inl e' \<and> is_401 e'")
        case False
        then have "w' = w2" using assms e Inr Some bt fa
          by (auto simp: topstepxRequest_def split: sum.splits if_splits)
        then show ?thesis using c2 xs(2) f0
          by (intro exI[of _ "xs @ [?c]"]) auto
      next
        case True
        then have "reauthenticate_and_retry m p d w2 = (r, w')" using assms e Inr Some bt fa
          by (auto simp: topstepxRequest_def)
        from reauthenticate_and_retry_trace[OF this] obtain ys where
          ys: "calls w' = calls w2 @ ys"
            "\<forall>c\<in>set ys. path c = ''/Auth/loginKey'' \<and> bearer c = None \<or> path c = p \<and> bearer c \<noteq> None"
            "length (filter (\<lambda>c. bearer c \<noteq> None) ys) \<le> 1"
          by auto
        show ?thesis using c2 ys xs(2) f0
          by (intro exI[of _ "xs @ [?c] @ ys"]) auto
      qed
    qed
  qed
qed

lemma topstepxRequest_frame:
  assumes "topstepxRequest m p d w = (r, w')"
  shows "env w' = env w \<and> remote w' = remote w
     \<and> accountsCache w' = accountsCache w \<and> accountsProto w' = accountsProto w
     \<and> contractsCache w' = contractsCache w
     \<and> symbolToContractIdMap w' = symbolToContractIdMap w"
proof -
  obtain r0 w1 where e: "ensureAuthenticated w = (r0, w1)" by (cases "ensureAuthenticated w")
  note f1 = ensureAuthenticated_frame[OF e]
  show ?thesis
  proof (cases r0)
    case (Inl e')
    then have "w' = w1" using assms e by (simp add: topstepxRequest_def)
    then show ?thesis using f1 by simp
  next
    case (Inr u)
    show ?thesis
    proof (cases "axiosInstance w1")
      case None
      then have "w' = w1" using assms e Inr by (simp add: topstepxRequest_def)
      then show ?thesis using f1 by simp
    next
      case (Some bt)
      obtain b t where bt: "bt = (b, t)" by (cases bt)
      let ?c = "Call b (Some t) m p d"
      obtain r1 w2 where fa: "first_attempt ?c w1 = (r1, w2)" by (cases "first_attempt ?c w1")
      have f2: "env w2 = env w \<and> remote w2 = remote w
         \<and> accountsCache w2 = accountsCache w \<and> accountsProto w2 = accountsProto w
         \<and> contractsCache w2 = contractsCache w
         \<and> symbolToContractIdMap w2 = symbolToContractIdMap w"
        using first_attempt_world[OF fa] f1 by (simp add: axios_request_def split: prod.splits)
      show ?thesis
      proof (cases "\<exists>e'. r1 = Inl e' \<and> is_401 e'")
        case False
        then have "w' = w2" using assms e Inr Some bt fa
          by (auto simp: topstepxRequest_def split: sum.splits if_splits)
        then show ?thesis using f2 by simp
      next
        case True
        then have "reauthenticate_and_retry m p d w2 = (r, w')" using assms e Inr Some bt fa
          by (auto simp: topstepxRequest_def)
        from reauthenticate_and_retry_frame[OF this] show ?thesis using f2 by simp
      qed
    qed
  qed
qed

section \<open>The reference data cache\<close>

lemma store_contract_world:
  "store_contract key c w = (r, w') \<Longrightarrow>
     calls w' = calls w \<and> env w' = env w \<and> remote w' = remote w \<and> now w' = now w
     \<and> authToken w' = authToken w \<and> tokenExpiry w' = tokenExpiry w
     \<and> axiosInstance w' = axiosInstance w \<and> accountsCache w' = accountsCache w
     \<and> accountsProto w' = accountsProto w
     \<and> contractsCache w' = AList.update key c (contractsCache w)"
  by (auto simp: store_contract_def Let_def split: sum.splits)




lemma getContractBySymbol_never_throws: "\<exists>c. fst (getContractBySymbol symbol w) = Inr c"
  by (auto simp: getContractBySymbol_def split: prod.splits sum.splits)

lemma getContractBySymbol_trace:
  assumes "getContractBySymbol symbol w = (r, w')"
  shows "\<exists>xs. calls w' = calls w @ xs
           \<and> (\<forall>c\<in>set xs. path c = ''/Auth/loginKey'' \<and> bearer c = None
                              \<or> path c = ''/Contract/search'' \<and> bearer c \<noteq> None)
           \<and> length (filter (\<lambda>c. bearer c \<noteq> None) xs) \<le> 2"
proof (cases "truthy (object_get (contractsCache w) (js_to_string symbol))")
  case True
  then have "w' = w" using assms by (simp add: getContractBySymbol_def)
  then show ?thesis by simp
next
  case False
  obtain r1 w1 where t: "topstepxRequest ''POST'' ''/Contract/search'' (contract_search symbol) w = (r1, w1)"
    by (cases "topstepxRequest ''POST'' ''/Contract/search'' (contract_search symbol) w")
  have "calls w' = calls w1"
    using assms False t
    by (auto simp: getContractBySymbol_def split: sum.splits if_splits prod.splits
        dest: store_contract_world)
  then show ?thesis using topstepxRequest_trace[OF t] by simp
qed

lemma getContractBySymbol_frame:
  assumes "getContractBySymbol symbol w = (r, w')"
  shows "env w' = env w \<and> remote w' = remote w \<and> accountsCache w' = accountsCache w"
proof (cases "truthy (object_get (contractsCache w) (js_to_string symbol))")
  case True
  then have "w' = w" using assms by (simp add: getContractBySymbol_def)
  then show ?thesis by simp
next
  case False
  obtain r1 w1 where t: "topstepxRequest ''POST'' ''/Contract/search'' (contract_search symbol) w = (r1, w1)"
    by (cases "topstepxRequest ''POST'' ''/Contract/search'' (contract_search symbol) w")
  have "env w' = env w1 \<and> remote w' = remote w1 \<and> accountsCache w' = accountsCache w1"
    using assms False t
    by (auto simp: getContractBySymbol_def split: sum.splits if_splits prod.splits
        dest: store_contract_world)
  then show ?thesis using topstepxRequest_frame[OF t] by simp
qed





lemma inherited_MES: "inherited ''MES'' = JUndefined"
  by (simp add: inherited_def Object_prototype_def)

lemma inherited_ZZZ: "inherited ''ZZZ'' = JUndefined"
  by (simp add: inherited_def Object_prototype_def)

lemma object_set_name: "k \<noteq> ''__proto__'' \<Longrightarrow> object_set k v ob = AList.update k v ob"
  by (simp add: object_set_def)






lemma snd_catching: "snd (catching prefix rw) = snd rw"
  by (cases rw) (auto simp: catching_def split: sum.splits)
















lemma loadAccounts_never_throws: "fst (loadAccounts w) = Inr ()"
  by (simp add: loadAccounts_def Let_def split: prod.splits sum.splits jsval.splits)

lemma initializeData_never_throws: "fst (initializeData w) = Inr ()"
proof -
  obtain w1 where 1: "loadAccounts w = (Inr (), w1)"
    using loadAccounts_never_throws[of w] by (cases "loadAccounts w") auto
  show ?thesis using 1 by (simp add: initializeData_def loadContracts_def)
qed






lemmas data_defs = getContractBySymbol_def object_get_def contract_search_def has_first_def
  js_gt0_def store_contract_def search_call_def with_accounts_def always_def mes_found_def
  zzz_contract_def zzz_envelope_def mes_contract_def account7_def account9_def accounts_envelope_def
  inherited_MES inherited_ZZZ object_set_name


lemma armed_eq:
  "armed =
     \<lparr>env = creds_env, remote = after_login mes_found, now = 2, authToken = Some (JStr ''T0''),
      tokenExpiry = Some 86400001,
      axiosInstance = Some (''https://api.topstepx.com/api'', JStr ''T0''),
      accountsCache = [], accountsProto = None, contractsCache = [(''MES'', mes_contract)],
      symbolToContractIdMap = [(''MES'', JNum 1)],
      calls = [login_call creds_env ''trader'' ''secret'',
               search_call ''https://api.topstepx.com/api'' (JStr ''T0'') (JStr ''MES'')]\<rparr>"
  by (simp add: armed_def data_defs auth_defs scenario_defs js_eval)


lemma load_symbol_accounts: "accountsCache (load_symbol s w) = accountsCache w"
proof -
  obtain r w1 where t: "topstepxRequest ''POST'' ''/Contract/search'' (contract_search (JStr s)) w = (r, w1)"
    by (cases "topstepxRequest ''POST'' ''/Contract/search'' (contract_search (JStr s)) w")
  have "accountsCache (load_symbol s w) = accountsCache w1"
    using t by (auto simp: load_symbol_def store_contract_def Let_def split: sum.splits)
  then show ?thesis using topstepxRequest_frame[OF t] by simp
qed

lemma fold_load_symbol_accounts: "accountsCache (fold load_symbol ss w) = accountsCache w"
  by (induction ss arbitrary: w) (simp_all add: load_symbol_accounts)

lemma initializeData_accounts:
  "accountsCache (snd (initializeData w)) = accountsCache (snd (loadAccounts w))"
proof -
  obtain w1 where 1: "loadAccounts w = (Inr (), w1)"
    using loadAccounts_never_throws[of w] by (cases "loadAccounts w") auto
  show ?thesis using 1
    by (simp add: initializeData_def loadContracts_def fold_load_symbol_accounts)
qed

lemma loadAccounts_failed_search:
  assumes "topstepxRequest ''POST'' ''/Account/search'' (JObj [(''onlyActiveAccounts'', JBool True)]) w = (Inl e, w1)"
  shows "accountsCache (snd (loadAccounts w)) = accountsCache w"
  using assms topstepxRequest_frame[OF assms] by (simp add: loadAccounts_def)

lemma array_index_7: "array_index ''7'' = Some 7"
  by (simp add: array_index_def canonical_nat_def is_digit_def parse_nat_def digit_val_def)

lemma object_keys_7: "object_keys [(''7'', v)] = [''7'']"
  by (simp add: object_keys_def array_index_7)

lemma number_key_7: "number_to_string (str_to_number ''7'') = ''7''"
  by (simp add: str_to_number_def canonical_nat_def is_digit_def parse_nat_def digit_val_def
      number_to_string_def num_str_def dec.simps)

lemma clear_one_account: "clear_accounts [(''7'', v)] = []"
  by (simp add: clear_accounts_def object_keys_7 number_key_7 AList.delete_eq)

lemma key_of_9: "num_str 9 = ''9''"
  by (simp add: num_str_def dec.simps)

text \<open>
  Claim C5 fails on the code. In a live session the account search of a refresh is
  answered 401, the login succeeds and the retried search returns account 9 in an envelope
  with \<^verbatim>\<open>success: true\<close>. The refresh does not throw, but the retry path hands
  \<^verbatim>\<open>undefined\<close> to \<^verbatim>\<open>loadAccounts\<close>, which has cleared the cache by then: the account map
  is empty, and an account 7 that it held before is gone. The same answer to a first
  attempt leaves exactly account 9.
\<close>

theorem C5_accounts_lost_after_retry:
  "fst (initializeData (live_session (expired_once accounts_envelope))) = Inr ()
   \<and> accountsCache (snd (initializeData (live_session (expired_once accounts_envelope)))) = []
   \<and> accountsCache (snd (initializeData
        (with_accounts [(''7'', account7)] (live_session (expired_once accounts_envelope))))) = []
   \<and> accountsCache (snd (initializeData (live_session (always (Resolve accounts_envelope)))))
       = [(''9'', account9)]"
proof -
  let ?E = "live_session (expired_once accounts_envelope)"
  let ?W = "with_accounts [(''7'', account7)] ?E"
  let ?D = "live_session (always (Resolve accounts_envelope))"
  let ?q = "JObj [(''onlyActiveAccounts'', JBool True)]"
  have "fst (topstepxRequest ''POST'' ''/Account/search'' ?q ?E) = Inr JUndefined"
    by (simp add: auth_defs scenario_defs data_defs js_eval)
  then obtain w0 where r0: "topstepxRequest ''POST'' ''/Account/search'' ?q ?E = (Inr JUndefined, w0)"
    by (cases "topstepxRequest ''POST'' ''/Account/search'' ?q ?E") auto
  have c0: "accountsCache w0 = []"
    using topstepxRequest_frame[OF r0] by (simp add: live_session_eq)
  have 0: "accountsCache (snd (loadAccounts ?E)) = []"
    using r0 c0 by (simp add: loadAccounts_def Let_def clear_accounts_def object_keys_def)
  have "fst (topstepxRequest ''POST'' ''/Account/search'' ?q ?W) = Inr JUndefined"
    by (simp add: auth_defs scenario_defs data_defs js_eval)
  then obtain w1 where r1: "topstepxRequest ''POST'' ''/Account/search'' ?q ?W = (Inr JUndefined, w1)"
    by (cases "topstepxRequest ''POST'' ''/Account/search'' ?q ?W") auto
  have c1: "accountsCache w1 = [(''7'', account7)]"
    using topstepxRequest_frame[OF r1] by (simp add: with_accounts_def)
  have 1: "accountsCache (snd (loadAccounts ?W)) = []"
    using r1 c1 by (simp add: loadAccounts_def Let_def clear_one_account)
  have "fst (topstepxRequest ''POST'' ''/Account/search'' ?q ?D) = Inr accounts_envelope"
    by (simp add: auth_defs scenario_defs data_defs js_eval)
  then obtain w2 where r2: "topstepxRequest ''POST'' ''/Account/search'' ?q ?D = (Inr accounts_envelope, w2)"
    by (cases "topstepxRequest ''POST'' ''/Account/search'' ?q ?D") auto
  have c2: "accountsCache w2 = []" "accountsProto w2 = None"
    using topstepxRequest_frame[OF r2] by (simp_all add: live_session_eq)
  have 2: "accountsCache (snd (loadAccounts ?D)) = [(''9'', account9)]"
    using r2 c2
    by (simp add: loadAccounts_def Let_def clear_accounts_def object_keys_def accounts_envelope_def
        account9_def key_of_9 object_assign_def)
  show ?thesis using 0 1 2 by (simp add: initializeData_never_throws initializeData_accounts)
qed

section \<open>The tool handlers\<close>

lemma isError_createErrorResult: "isError (createErrorResult msg)"
  by (simp add: createErrorResult_def)

lemma catching_Inl: "catching prefix (Inl e, w) = (createErrorResult [Lit prefix, Err e], w)"
  by (simp add: catching_def)

lemma catching_Inr: "catching prefix (Inr r, w) = (r, w)"
  by (simp add: catching_def)

lemma field_not_ok: "\<not> arguments_ok args \<Longrightarrow> field args k = JUndefined"
  by (auto simp: arguments_ok_def field_def)

lemma callTool_missing_required:
  assumes "k \<in> set (required_fields name)" and "\<not> truthy (field args k)"
  shows "isError (fst (callTool toISOString name args w)) \<and> snd (callTool toISOString name args w) = w"
proof -
  consider (details) "name = ''get_contract_details''" "k = ''symbol''"
    | (search) "name = ''search_contracts''" "k = ''searchText''"
    | (place) "name = ''place_order''" "k = ''symbol'' \<or> k = ''side'' \<or> k = ''quantity''"
    | (close) "name = ''close_position''" "k = ''symbol''"
    | (modify) "name = ''modify_order''" "k = ''orderId''"
    | (cancel) "name = ''cancel_order''" "k = ''orderId''"
    | (market) "name = ''get_market_data''" "k = ''symbol''"
    | (bars) "name = ''get_bars''" "k = ''symbol'' \<or> k = ''startTime'' \<or> k = ''endTime''"
    using assms(1) by (auto simp: required_fields_def split: if_splits)
  then show ?thesis
  proof cases
    case details
    then show ?thesis using assms(2)
      by (simp add: callTool_def handleGetContractDetails_def catching_def createErrorResult_def Let_def)
  next
    case search
    then show ?thesis using assms(2)
      by (simp add: callTool_def handleSearchContracts_def catching_def createErrorResult_def Let_def)
  next
    case place
    then show ?thesis using assms(2)
      by (auto simp: callTool_def handlePlaceOrder_def catching_def createErrorResult_def Let_def)
  next
    case close
    then show ?thesis using assms(2)
      by (simp add: callTool_def handleClosePosition_def catching_def createErrorResult_def Let_def)
  next
    case modify
    then show ?thesis using assms(2)
      by (simp add: callTool_def handleModifyOrder_def catching_def createErrorResult_def Let_def)
  next
    case cancel
    then show ?thesis using assms(2)
      by (simp add: callTool_def handleCancelOrder_def catching_def createErrorResult_def Let_def)
  next
    case market
    then show ?thesis using assms(2)
      by (simp add: callTool_def handleGetMarketData_def catching_def createErrorResult_def Let_def)
  next
    case bars
    then show ?thesis using assms(2)
      by (auto simp: callTool_def handleGetBars_def catching_def createErrorResult_def Let_def)
  qed
qed

lemma handlePlaceOrder_resolved:
  assumes "arguments_ok args"
    and "truthy (field args ''symbol'')" "truthy (field args ''side'')" "truthy (field args ''quantity'')"
    and "getContractBySymbol (field args ''symbol'') w = (Inr contract, w1)" "truthy contract"
    and "target_account (field args ''accountId'') w1 = Inr a" "truthy a"
  shows "handlePlaceOrder args w =
    (let orderType = field_default args ''orderType'' (JStr ''Market'');
         wantsPrice = (orderType = JStr ''Limit'' \<or> orderType = JStr ''StopLimit'');
         wantsStop = (orderType = JStr ''Stop'' \<or> orderType = JStr ''StopLimit'')
     in if wantsPrice \<and> \<not> truthy (field args ''price'')
        then (createErrorResult [Lit ''Price is required for Limit orders''], w1)
        else if wantsStop \<and> \<not> truthy (field args ''stopPrice'')
        then (createErrorResult [Lit ''Stop price is required for Stop orders''], w1)
        else catching ''Failed to place order: ''
          (case topstepxRequest ''POST'' ''/Order/place''
                  (JObj ([(''accountId'', a), (''contractId'', field contract ''id''),
                          (''side'', field args ''side''), (''orderType'', orderType),
                          (''quantity'', field args ''quantity''),
                          (''timeInForce'', field_default args ''timeInForce'' (JStr ''Day''))]
                         @ (if wantsPrice then [(''price'', field args ''price'')] else [])
                         @ (if wantsStop then [(''stopPrice'', field args ''stopPrice'')] else []))) w1 of
             (Inl e, w2) \<Rightarrow> (Inl e, w2)
           | (Inr response, w2) \<Rightarrow>
               (Inr (createToolResult (JObj [(''success'', JBool True), (''order'', response)])), w2)))"
  using assms by (simp add: handlePlaceOrder_def Let_def catching_def)

lemma handlePlaceOrder_unsent:
  assumes "(field_default args ''orderType'' (JStr ''Market'') = JStr ''Limit''
            \<or> field_default args ''orderType'' (JStr ''Market'') = JStr ''StopLimit'')
           \<and> \<not> truthy (field args ''price'')
         \<or> (field_default args ''orderType'' (JStr ''Market'') = JStr ''Stop''
            \<or> field_default args ''orderType'' (JStr ''Market'') = JStr ''StopLimit'')
           \<and> \<not> truthy (field args ''stopPrice'')"
  shows "isError (fst (handlePlaceOrder args w))
     \<and> (snd (handlePlaceOrder args w) = w
        \<or> snd (handlePlaceOrder args w) = snd (getContractBySymbol (field args ''symbol'') w))"
proof -
  obtain r w1 where g: "getContractBySymbol (field args ''symbol'') w = (r, w1)"
    by (cases "getContractBySymbol (field args ''symbol'') w")
  obtain c where c: "r = Inr c"
    using getContractBySymbol_never_throws[of "field args ''symbol''" w] g by auto
  show ?thesis
    using assms g c
    by (auto simp: handlePlaceOrder_def Let_def catching_def createErrorResult_def
        split: sum.splits)
qed

lemma sent_same: "\<not> sent p w w"
  by (simp add: sent_def issued_def)

lemma lookup_sends_only_search:
  assumes "p \<noteq> ''/Auth/loginKey''" and "p \<noteq> ''/Contract/search''"
  shows "\<not> sent p w (snd (getContractBySymbol symbol w))"
proof -
  obtain r w' where g: "getContractBySymbol symbol w = (r, w')"
    by (cases "getContractBySymbol symbol w")
  from getContractBySymbol_trace[OF g] obtain xs where
    "calls w' = calls w @ xs"
    "\<forall>c\<in>set xs. path c = ''/Auth/loginKey'' \<and> bearer c = None
                \<or> path c = ''/Contract/search'' \<and> bearer c \<noteq> None"
    by auto
  then show ?thesis using assms g by (auto simp: sent_def issued_def)
qed

lemma lookup_cached: "cached symbol w \<Longrightarrow> snd (getContractBySymbol symbol w) = w"
  by (simp add: cached_def getContractBySymbol_def)

lemma handlePlaceOrder_rejected:
  assumes "wants_price args \<and> \<not> truthy (field args ''price'')
         \<or> wants_stop args \<and> \<not> truthy (field args ''stopPrice'')"
  shows "isError (fst (handlePlaceOrder args w))
     \<and> \<not> sent ''/Order/place'' w (snd (handlePlaceOrder args w))
     \<and> (cached (field args ''symbol'') w \<longrightarrow> snd (handlePlaceOrder args w) = w)"
  using handlePlaceOrder_unsent[of args w] assms sent_same[of "''/Order/place''" w]
    lookup_sends_only_search[of "''/Order/place''" w "field args ''symbol''"]
    lookup_cached[of "field args ''symbol''" w]
  by (auto simp: wants_price_def wants_stop_def order_type_def)

text \<open>
  Claim C2, as amended. A tool invocation in which a field of the tool's \<^verbatim>\<open>required\<close> list
  is absent (or falsy) returns an error result and leaves the state, the call log
  included, unchanged. \<^verbatim>\<open>place_order\<close> with \<^verbatim>\<open>orderType\<close> \<^verbatim>\<open>Limit\<close> and no \<^verbatim>\<open>price\<close> returns an
  error result and never sends \<^verbatim>\<open>/Order/place\<close>; for a cached symbol it issues no call at
  all; and when the required fields are present and the contract and the account resolve,
  the error is the missing-price one.
\<close>

theorem C2_validation_before_the_order:
  "(\<forall>k. k \<in> set (required_fields name) \<and> \<not> truthy (field args k) \<longrightarrow>
      isError (fst (callTool toISOString name args w))
      \<and> snd (callTool toISOString name args w) = w)
   \<and> (field args ''orderType'' = JStr ''Limit'' \<and> field args ''price'' = JUndefined \<longrightarrow>
        isError (fst (callTool toISOString ''place_order'' args w))
        \<and> \<not> sent ''/Order/place'' w (snd (callTool toISOString ''place_order'' args w))
        \<and> (cached (field args ''symbol'') w \<longrightarrow>
             snd (callTool toISOString ''place_order'' args w) = w))
   \<and> (\<forall>contract w1 a.
        field args ''orderType'' = JStr ''Limit'' \<and> field args ''price'' = JUndefined
        \<and> place_order_ready args w contract w1 a \<longrightarrow>
        callTool toISOString ''place_order'' args w
          = (createErrorResult [Lit ''Price is required for Limit orders''], w1))"
proof -
  have p: "callTool toISOString ''place_order'' args w = handlePlaceOrder args w"
    by (simp add: callTool_def)
  have 1: "isError (fst (callTool toISOString name args w)) \<and> snd (callTool toISOString name args w) = w"
    if "k \<in> set (required_fields name)" and "\<not> truthy (field args k)" for k
    using that by (rule callTool_missing_required)
  have wp: "wants_price args \<and> \<not> truthy (field args ''price'')"
    if "field args ''orderType'' = JStr ''Limit''" and "field args ''price'' = JUndefined"
    using that by (simp add: wants_price_def order_type_def field_default_def)
  have 2: "isError (fst (handlePlaceOrder args w))
        \<and> \<not> sent ''/Order/place'' w (snd (handlePlaceOrder args w))
        \<and> (cached (field args ''symbol'') w \<longrightarrow> snd (handlePlaceOrder args w) = w)"
    if "field args ''orderType'' = JStr ''Limit''" and "field args ''price'' = JUndefined"
    using handlePlaceOrder_rejected[of args w] wp[OF that] by blast
  have 3: "handlePlaceOrder args w = (createErrorResult [Lit ''Price is required for Limit orders''], w1)"
    if "field args ''orderType'' = JStr ''Limit''" and "field args ''price'' = JUndefined"
      and r: "place_order_ready args w contract w1 a" for contract w1 a
    using r wp[OF that(1,2)] handlePlaceOrder_resolved[of args w contract w1 a]
    by (simp add: place_order_ready_def wants_price_def order_type_def Let_def)
  show ?thesis unfolding p using 1 2 3 by blast
qed

lemmas tool_defs = callTool_def handlePlaceOrder_def handleClosePosition_def catching_def
  createErrorResult_def createToolResult_def arguments_ok_def field_def field_default_def
  target_account_def getDefaultAccountId_def getPositions_def find_position_def
  order_args_def Let_def

text \<open>
  Claim C2 as stated fails for an uncached symbol: the price is validated after the
  contract lookup, so the Limit order without a price is refused for its missing price
  only once \<^verbatim>\<open>/Contract/search\<close> has been called.
\<close>

theorem C2_uncached_symbol_is_searched_first:
  "\<not> cached (JStr ''MES'') (live_session mes_found)
   \<and> fst (callTool (\<lambda>t. []) ''place_order'' (order_args [(''orderType'', JStr ''Limit'')])
             (live_session mes_found))
       = createErrorResult [Lit ''Price is required for Limit orders'']
   \<and> issued (live_session mes_found)
        (snd (callTool (\<lambda>t. []) ''place_order'' (order_args [(''orderType'', JStr ''Limit'')])
                (live_session mes_found)))
       = [search_call ''https://api.topstepx.com/api'' (JStr ''T0'') (JStr ''MES'')]"
  by (simp add: tool_defs data_defs auth_defs scenario_defs js_eval cached_def issued_def)

text \<open>
  Claim C2 at \<^verbatim>\<open>cancel_order\<close> without its \<^verbatim>\<open>orderId\<close>, and at a Limit order without a price
  for the cached symbol MES.
\<close>

theorem C2_witness:
  "isError (fst (callTool (\<lambda>t. []) ''cancel_order'' (JObj []) armed))
   \<and> snd (callTool (\<lambda>t. []) ''cancel_order'' (JObj []) armed) = armed
   \<and> callTool (\<lambda>t. []) ''place_order'' (order_args [(''orderType'', JStr ''Limit'')]) armed
       = (createErrorResult [Lit ''Price is required for Limit orders''], armed)"
proof -
  let ?args = "order_args [(''orderType'', JStr ''Limit'')]"
  have k: "''orderId'' \<in> set (required_fields ''cancel_order'') \<and> \<not> truthy (field (JObj []) ''orderId'')"
    by (simp add: required_fields_def field_def)
  note A = C2_validation_before_the_order[of "''cancel_order''" "JObj []" "\<lambda>t. []" armed,
      THEN conjunct1, rule_format, OF k]
  have f: "field ?args ''orderType'' = JStr ''Limit''" "field ?args ''price'' = JUndefined"
    by (simp_all add: order_args_def field_def)
  have r: "place_order_ready ?args armed mes_contract armed (JNum 9)"
    by (simp add: place_order_ready_def tool_defs armed_eq getContractBySymbol_def object_get_def
        mes_contract_def)
  note B = C2_validation_before_the_order[of _ ?args "\<lambda>t. []" armed,
      THEN conjunct2, THEN conjunct2, rule_format, OF conjI[OF f(1) conjI[OF f(2) r]]]
  show ?thesis using A B by simp
qed

lemma handleClosePosition_world:
  "snd (handleClosePosition args w) = w
   \<or> snd (handleClosePosition args w) = snd (getContractBySymbol (field args ''symbol'') w)"
proof -
  obtain r w1 where g: "getContractBySymbol (field args ''symbol'') w = (r, w1)"
    by (cases "getContractBySymbol (field args ''symbol'') w")
  show ?thesis using g
    by (auto simp: handleClosePosition_def Let_def catching_def getPositions_def find_position_def
        split: sum.splits)
qed

text \<open>
  Claim C8. \<^verbatim>\<open>getPositions\<close> and \<^verbatim>\<open>getOrders\<close> return the empty array for every input and
  leave the state, the call log included, as it was; so do the two tools built on them
  for every argument object.
\<close>

theorem C8_placeholders_always_empty:
  "getPositions accountId w = (Inr [], w)
   \<and> getOrders accountId onlyOpen w = (Inr [], w)
   \<and> handleListPositions (JObj fs) w
       = (createToolResult (JObj [(''positions'', JArr []), (''count'', JNum 0)]), w)
   \<and> handleListOrders (JObj fs) w
       = (createToolResult (JObj [(''orders'', JArr []), (''count'', JNum 0)]), w)"
  by (simp add: getPositions_def getOrders_def handleListPositions_def handleListOrders_def
      catching_def arguments_ok_def)

text \<open>
  Claim C9. \<^verbatim>\<open>handleClosePosition\<close> always returns an error result and never sends
  \<^verbatim>\<open>/Position/close-partial\<close>; when the symbol is given and resolves to a contract, the
  error says that no open position was found for the symbol.
\<close>

theorem C9_close_position_never_closes:
  "isError (fst (handleClosePosition args w))
   \<and> \<not> sent ''/Position/close-partial'' w (snd (handleClosePosition args w))
   \<and> (\<forall>contract w1.
        arguments_ok args \<and> truthy (field args ''symbol'')
        \<and> getContractBySymbol (field args ''symbol'') w = (Inr contract, w1) \<and> truthy contract \<longrightarrow>
        handleClosePosition args w
          = (createErrorResult [Lit ''No open position found for '', Val (field args ''symbol'')], w1))"
proof -
  obtain r w1 where g: "getContractBySymbol (field args ''symbol'') w = (r, w1)"
    by (cases "getContractBySymbol (field args ''symbol'') w")
  have 1: "isError (fst (handleClosePosition args w))"
    using g
    by (auto simp: handleClosePosition_def Let_def catching_def getPositions_def find_position_def
        createErrorResult_def split: sum.splits)
  have 2: "\<not> sent ''/Position/close-partial'' w (snd (handleClosePosition args w))"
    using handleClosePosition_world[of args w] sent_same[of "''/Position/close-partial''" w]
      lookup_sends_only_search[of "''/Position/close-partial''" w "field args ''symbol''"]
    by auto
  have 3: "handleClosePosition args w
          = (createErrorResult [Lit ''No open position found for '', Val (field args ''symbol'')], w1)"
    if "arguments_ok args" "truthy (field args ''symbol'')"
      "getContractBySymbol (field args ''symbol'') w = (Inr contract, w1)" "truthy contract"
    for contract w1
    using that
    by (simp add: handleClosePosition_def Let_def catching_def getPositions_def find_position_def)
  show ?thesis using 1 2 3 by blast
qed

text \<open>
  Claim C9 at the cached symbol MES.
\<close>

theorem C9_witness:
  "handleClosePosition (JObj [(''symbol'', JStr ''MES'')]) armed
     = (createErrorResult [Lit ''No open position found for '', Val (JStr ''MES'')], armed)"
proof -
  let ?args = "JObj [(''symbol'', JStr ''MES'')]"
  have h: "arguments_ok ?args \<and> truthy (field ?args ''symbol'')
      \<and> getContractBySymbol (field ?args ''symbol'') armed = (Inr mes_contract, armed)
      \<and> truthy mes_contract"
    by (simp add: tool_defs armed_eq getContractBySymbol_def object_get_def mes_contract_def)
  have s: "field ?args ''symbol'' = JStr ''MES''" by (simp add: field_def)
  show ?thesis
    using C9_close_position_never_closes[of ?args armed, THEN conjunct2, THEN conjunct2,
        rule_format, OF h] s
    by simp
qed

lemma field_delete:
  "field (JObj (AList.delete k fs)) k' = (if k' = k then JUndefined else field (JObj fs) k')"
  by (auto simp: field_def delete_conv)

lemma field_default_delete:
  "k' \<noteq> k \<Longrightarrow> field_default (JObj (AList.delete k fs)) k' d = field_default (JObj fs) k' d"
  by (simp add: field_default_def field_delete)

lemma handlePlaceOrder_price_0_as_absent:
  assumes "map_of fs ''price'' = Some (JNum 0)"
  shows "handlePlaceOrder (JObj fs) w = handlePlaceOrder (JObj (AList.delete ''price'' fs)) w"
proof -
  have p: "field (JObj fs) ''price'' = JNum 0" using assms by (simp add: field_def)
  show ?thesis
    by (simp add: handlePlaceOrder_def Let_def field_delete field_default_delete arguments_ok_def p
        split: prod.splits sum.splits)
qed

lemma handlePlaceOrder_stopPrice_0_as_absent:
  assumes "map_of fs ''stopPrice'' = Some (JNum 0)"
  shows "handlePlaceOrder (JObj fs) w = handlePlaceOrder (JObj (AList.delete ''stopPrice'' fs)) w"
proof -
  have p: "field (JObj fs) ''stopPrice'' = JNum 0" using assms by (simp add: field_def)
  show ?thesis
    by (simp add: handlePlaceOrder_def Let_def field_delete field_default_delete arguments_ok_def p
        split: prod.splits sum.splits)
qed

lemma handlePlaceOrder_quantity_0_as_absent:
  assumes "map_of fs ''quantity'' = Some (JNum 0)"
  shows "handlePlaceOrder (JObj fs) w = handlePlaceOrder (JObj (AList.delete ''quantity'' fs)) w"
proof -
  have p: "field (JObj fs) ''quantity'' = JNum 0" using assms by (simp add: field_def)
  show ?thesis
    by (simp add: handlePlaceOrder_def Let_def field_delete field_default_delete arguments_ok_def p
        split: prod.splits sum.splits)
qed

text \<open>
  Claim C10. In \<^verbatim>\<open>handlePlaceOrder\<close> a quantity of 0 is rejected with the
  missing-required-arguments error and the state is unchanged. A price of 0 on a Limit or
  StopLimit order, and a stop price of 0 on a Stop or StopLimit order, give an error
  result and \<^verbatim>\<open>/Order/place\<close> is not sent; when the earlier checks pass, the error is the
  missing-price one, respectively the missing-stop-price one (for StopLimit, when the
  price itself is given). In each case the handler does exactly what it does when the
  field is absent from the arguments.
\<close>

theorem C10_falsy_values_are_absent:
  "(arguments_ok args \<and> field args ''quantity'' = JNum 0 \<longrightarrow>
      handlePlaceOrder args w
        = (createErrorResult [Lit ''Symbol, side, and quantity are required''], w))
   \<and> (wants_price args \<and> field args ''price'' = JNum 0 \<longrightarrow>
        isError (fst (handlePlaceOrder args w))
        \<and> \<not> sent ''/Order/place'' w (snd (handlePlaceOrder args w)))
   \<and> (wants_stop args \<and> field args ''stopPrice'' = JNum 0 \<longrightarrow>
        isError (fst (handlePlaceOrder args w))
        \<and> \<not> sent ''/Order/place'' w (snd (handlePlaceOrder args w)))
   \<and> (\<forall>contract w1 a.
        place_order_ready args w contract w1 a
        \<and> wants_price args \<and> field args ''price'' = JNum 0 \<longrightarrow>
        handlePlaceOrder args w
          = (createErrorResult [Lit ''Price is required for Limit orders''], w1))
   \<and> (\<forall>contract w1 a.
        place_order_ready args w contract w1 a
        \<and> wants_stop args \<and> field args ''stopPrice'' = JNum 0
        \<and> (\<not> wants_price args \<or> truthy (field args ''price'')) \<longrightarrow>
        handlePlaceOrder args w
          = (createErrorResult [Lit ''Stop price is required for Stop orders''], w1))
   \<and> (\<forall>fs. map_of fs ''quantity'' = Some (JNum 0) \<longrightarrow>
        handlePlaceOrder (JObj fs) w = handlePlaceOrder (JObj (AList.delete ''quantity'' fs)) w)
   \<and> (\<forall>fs. map_of fs ''price'' = Some (JNum 0) \<longrightarrow>
        handlePlaceOrder (JObj fs) w = handlePlaceOrder (JObj (AList.delete ''price'' fs)) w)
   \<and> (\<forall>fs. map_of fs ''stopPrice'' = Some (JNum 0) \<longrightarrow>
        handlePlaceOrder (JObj fs) w = handlePlaceOrder (JObj (AList.delete ''stopPrice'' fs)) w)"
proof -
  have 1: "handlePlaceOrder args w
        = (createErrorResult [Lit ''Symbol, side, and quantity are required''], w)"
    if "arguments_ok args" and "field args ''quantity'' = JNum 0"
    using that by (simp add: handlePlaceOrder_def Let_def catching_def)
  have 2: "isError (fst (handlePlaceOrder args w))
        \<and> \<not> sent ''/Order/place'' w (snd (handlePlaceOrder args w))"
    if "wants_price args" and "field args ''price'' = JNum 0"
    using handlePlaceOrder_rejected[of args w] that by simp
  have 3: "isError (fst (handlePlaceOrder args w))
        \<and> \<not> sent ''/Order/place'' w (snd (handlePlaceOrder args w))"
    if "wants_stop args" and "field args ''stopPrice'' = JNum 0"
    using handlePlaceOrder_rejected[of args w] that by simp
  have 4: "handlePlaceOrder args w
          = (createErrorResult [Lit ''Price is required for Limit orders''], w1)"
    if "place_order_ready args w contract w1 a" and "wants_price args"
      and "field args ''price'' = JNum 0" for contract w1 a
    using that handlePlaceOrder_resolved[of args w contract w1 a]
    by (simp add: place_order_ready_def wants_price_def order_type_def Let_def)
  have 5: "handlePlaceOrder args w
          = (createErrorResult [Lit ''Stop price is required for Stop orders''], w1)"
    if "place_order_ready args w contract w1 a" and "wants_stop args"
      and "field args ''stopPrice'' = JNum 0"
      and "\<not> wants_price args \<or> truthy (field args ''price'')" for contract w1 a
    using that handlePlaceOrder_resolved[of args w contract w1 a]
    by (auto simp: place_order_ready_def wants_price_def wants_stop_def order_type_def Let_def)
  show ?thesis
    using 1 2 3 4 5 handlePlaceOrder_quantity_0_as_absent[of _ w]
      handlePlaceOrder_price_0_as_absent[of _ w] handlePlaceOrder_stopPrice_0_as_absent[of _ w]
    by blast
qed

text \<open>
  Claim C10 at orders for the cached symbol MES with quantity 0, with price 0 and with
  stop price 0.
\<close>

theorem C10_witness:
  "handlePlaceOrder (JObj [(''symbol'', JStr ''MES''), (''side'', JStr ''Buy''), (''quantity'', JNum 0)]) armed
     = (createErrorResult [Lit ''Symbol, side, and quantity are required''], armed)
   \<and> handlePlaceOrder (order_args [(''orderType'', JStr ''Limit''), (''price'', JNum 0)]) armed
     = (createErrorResult [Lit ''Price is required for Limit orders''], armed)
   \<and> handlePlaceOrder (order_args [(''orderType'', JStr ''Stop''), (''stopPrice'', JNum 0)]) armed
     = (createErrorResult [Lit ''Stop price is required for Stop orders''], armed)
   \<and> handlePlaceOrder (order_args [(''orderType'', JStr ''Limit''), (''price'', JNum 0)]) armed
     = handlePlaceOrder (order_args [(''orderType'', JStr ''Limit'')]) armed"
proof -
  let ?q = "JObj [(''symbol'', JStr ''MES''), (''side'', JStr ''Buy''), (''quantity'', JNum 0)]"
  let ?l = "order_args [(''orderType'', JStr ''Limit''), (''price'', JNum 0)]"
  let ?s = "order_args [(''orderType'', JStr ''Stop''), (''stopPrice'', JNum 0)]"
  have q: "arguments_ok ?q \<and> field ?q ''quantity'' = JNum 0"
    by (simp add: arguments_ok_def field_def)
  note A = C10_falsy_values_are_absent[of ?q armed, THEN conjunct1, rule_format, OF q]
  have l: "place_order_ready ?l armed mes_contract armed (JNum 9)
      \<and> wants_price ?l \<and> field ?l ''price'' = JNum 0"
    by (simp add: place_order_ready_def wants_price_def order_type_def tool_defs armed_eq
        getContractBySymbol_def object_get_def mes_contract_def)
  note B = C10_falsy_values_are_absent[of ?l armed, THEN conjunct2, THEN conjunct2, THEN conjunct2,
      THEN conjunct1, rule_format, OF l]
  have s: "place_order_ready ?s armed mes_contract armed (JNum 9)
      \<and> wants_stop ?s \<and> field ?s ''stopPrice'' = JNum 0
      \<and> (\<not> wants_price ?s \<or> truthy (field ?s ''price''))"
    by (simp add: place_order_ready_def wants_price_def wants_stop_def order_type_def tool_defs
        armed_eq getContractBySymbol_def object_get_def mes_contract_def)
  note C = C10_falsy_values_are_absent[of ?s armed, THEN conjunct2, THEN conjunct2, THEN conjunct2,
      THEN conjunct2, THEN conjunct1, rule_format, OF s]
  let ?fs = "[(''symbol'', JStr ''MES''), (''side'', JStr ''Buy''), (''quantity'', JNum 1),
              (''accountId'', JNum 9), (''orderType'', JStr ''Limit''), (''price'', JNum 0)]"
  have d: "map_of ?fs ''price'' = Some (JNum 0)" by simp
  have e: "AList.delete ''price'' ?fs
      = [(''symbol'', JStr ''MES''), (''side'', JStr ''Buy''), (''quantity'', JNum 1),
         (''accountId'', JNum 9), (''orderType'', JStr ''Limit'')]"
    by (simp add: AList.delete_eq)
  note D = C10_falsy_values_are_absent[of _ armed, THEN conjunct2, THEN conjunct2, THEN conjunct2,
      THEN conjunct2, THEN conjunct2, THEN conjunct2, THEN conjunct1, rule_format, OF d]
  have D': "handlePlaceOrder ?l armed = handlePlaceOrder (order_args [(''orderType'', JStr ''Limit'')]) armed"
    using D e by (simp add: order_args_def)
  show ?thesis using A B C D' by simp
qed

section \<open>The session invariant\<close>

text \<open>
  Every operation keeps \<open>session_inv\<close>: the token is set only by a login that succeeded, which
  needs the credentials, and sets the expiry and the axios instance with it; the 401 branch
  clears the token alone.
\<close>

lemma session_inv_cong:
  "env w' = env w \<Longrightarrow> authToken w' = authToken w \<Longrightarrow> tokenExpiry w' = tokenExpiry w
   \<Longrightarrow> axiosInstance w' = axiosInstance w \<Longrightarrow> session_inv w' = session_inv w"
  by (simp add: session_inv_def split: option.splits)

lemma inv_axios_request: "session_inv w \<Longrightarrow> axios_request c w = (r, w') \<Longrightarrow> session_inv w'"
  by (auto simp: session_inv_def split: option.splits dest!: axios_request_world)

lemma inv_authenticate: "session_inv w \<Longrightarrow> authenticate w = (r, w') \<Longrightarrow> session_inv w'"
proof (cases r)
  case (Inl e)
  assume a: "session_inv w" "authenticate w = (r, w')"
  then show ?thesis
    using authenticate_failure_frame[of w e w'] authenticate_frame[of w r w'] Inl
    by (simp add: session_inv_def split: option.splits)
next
  case (Inr u)
  assume a: "session_inv w" "authenticate w = (r, w')"
  then show ?thesis
    using authenticate_success[of w u w'] authenticate_frame[of w r w'] Inr
    by (auto simp: session_inv_def split: option.splits)
qed

lemma inv_ensureAuthenticated:
  "session_inv w \<Longrightarrow> ensureAuthenticated w = (r, w') \<Longrightarrow> session_inv w'"
  by (auto simp: ensureAuthenticated_def split: if_splits dest: inv_authenticate)

lemma inv_cleared: "session_inv (w\<lparr>authToken := None\<rparr>)"
  by (simp add: session_inv_def split: option.splits)

lemma inv_reauthenticate_and_retry:
  "reauthenticate_and_retry m p d w = (r, w') \<Longrightarrow> session_inv w'"
  using inv_cleared[of w]
  by (auto simp: reauthenticate_and_retry_def split: prod.splits sum.splits option.splits
      dest: inv_authenticate inv_axios_request)

lemma inv_first_attempt: "session_inv w \<Longrightarrow> first_attempt c w = (r, w') \<Longrightarrow> session_inv w'"
  by (auto simp: first_attempt_def split: prod.splits sum.splits dest: inv_axios_request)

lemma inv_topstepxRequest:
  "session_inv w \<Longrightarrow> topstepxRequest m p d w = (r, w') \<Longrightarrow> session_inv w'"
  by (auto simp: topstepxRequest_def split: prod.splits sum.splits option.splits if_splits
      dest: inv_ensureAuthenticated inv_first_attempt inv_reauthenticate_and_retry)

lemma inv_store_contract:
  "session_inv w \<Longrightarrow> store_contract k c w = (r, w') \<Longrightarrow> session_inv w'"
  by (auto simp: session_inv_def split: option.splits dest!: store_contract_world)

lemma inv_getContractBySymbol:
  "session_inv w \<Longrightarrow> getContractBySymbol s w = (r, w') \<Longrightarrow> session_inv w'"
  by (auto simp: getContractBySymbol_def split: prod.splits sum.splits if_splits
      dest: inv_topstepxRequest inv_store_contract)

lemma inv_accounts: "session_inv (w\<lparr>accountsCache := c\<rparr>) = session_inv w"
  by (simp add: session_inv_def split: option.splits)

lemma inv_accounts_proto: "session_inv (w\<lparr>accountsCache := c, accountsProto := p\<rparr>) = session_inv w"
  by (simp add: session_inv_def split: option.splits)

lemma inv_loadAccounts: "session_inv w \<Longrightarrow> session_inv (snd (loadAccounts w))"
  by (auto simp: loadAccounts_def Let_def inv_accounts inv_accounts_proto
      split: prod.splits sum.splits jsval.splits dest: inv_topstepxRequest)

lemma inv_store_contract_snd: "session_inv w \<Longrightarrow> session_inv (snd (store_contract k c w))"
  using inv_store_contract[of w k c "fst (store_contract k c w)" "snd (store_contract k c w)"]
  by simp

lemma inv_load_symbol: "session_inv w \<Longrightarrow> session_inv (load_symbol s w)"
proof -
  assume i: "session_inv w"
  obtain r w1 where t: "topstepxRequest ''POST'' ''/Contract/search'' (contract_search (JStr s)) w = (r, w1)"
    by (cases "topstepxRequest ''POST'' ''/Contract/search'' (contract_search (JStr s)) w")
  have i1: "session_inv w1" using inv_topstepxRequest[OF i t] .
  show ?thesis
    using t i1 by (auto simp: load_symbol_def inv_store_contract_snd split: sum.splits)
qed

lemma inv_fold_load_symbol: "session_inv w \<Longrightarrow> session_inv (fold load_symbol ss w)"
  by (induction ss arbitrary: w) (simp_all add: inv_load_symbol)

lemma inv_initializeData: "session_inv w \<Longrightarrow> session_inv (snd (initializeData w))"
proof -
  assume i: "session_inv w"
  obtain w1 where 1: "loadAccounts w = (Inr (), w1)"
    using loadAccounts_never_throws[of w] by (cases "loadAccounts w") auto
  have i1: "session_inv w1" using inv_loadAccounts[OF i] 1 by simp
  have "session_inv (w1\<lparr>contractsCache := [], symbolToContractIdMap := []\<rparr>)"
    using i1 by (simp add: session_inv_def split: option.splits)
  then show ?thesis using 1
    by (simp add: initializeData_def loadContracts_def inv_fold_load_symbol)
qed

lemma inv_handleGetContractDetails:
  "session_inv w \<Longrightarrow> session_inv (snd (handleGetContractDetails args w))"
  by (auto simp: handleGetContractDetails_def snd_catching Let_def
      split: prod.splits sum.splits dest: inv_getContractBySymbol)

lemma inv_handleSearchContracts:
  "session_inv w \<Longrightarrow> session_inv (snd (handleSearchContracts args w))"
  by (auto simp: handleSearchContracts_def snd_catching Let_def
      split: prod.splits sum.splits dest: inv_topstepxRequest)

lemma inv_handlePlaceOrder:
  "session_inv w \<Longrightarrow> session_inv (snd (handlePlaceOrder args w))"
  by (auto simp: handlePlaceOrder_def snd_catching Let_def
      split: prod.splits sum.splits dest: inv_getContractBySymbol inv_topstepxRequest)

lemma inv_handleClosePosition:
  "session_inv w \<Longrightarrow> session_inv (snd (handleClosePosition args w))"
  by (auto simp: handleClosePosition_def snd_catching Let_def getPositions_def find_position_def
      split: prod.splits sum.splits dest: inv_getContractBySymbol inv_topstepxRequest)

lemma inv_handleModifyOrder:
  "session_inv w \<Longrightarrow> session_inv (snd (handleModifyOrder args w))"
  by (auto simp: handleModifyOrder_def snd_catching Let_def
      split: prod.splits sum.splits dest: inv_topstepxRequest)

lemma inv_handleCancelOrder:
  "session_inv w \<Longrightarrow> session_inv (snd (handleCancelOrder args w))"
  by (auto simp: handleCancelOrder_def snd_catching Let_def
      split: prod.splits sum.splits dest: inv_topstepxRequest)

lemma inv_handleGetAccountSummary:
  "session_inv w \<Longrightarrow> session_inv (snd (handleGetAccountSummary args w))"
  by (auto simp: handleGetAccountSummary_def snd_catching Let_def getPositions_def getOrders_def
      split: prod.splits sum.splits)

lemma inv_handleGetMarketData:
  "session_inv w \<Longrightarrow> session_inv (snd (handleGetMarketData toISOString args w))"
  by (auto simp: handleGetMarketData_def snd_catching Let_def
      split: prod.splits sum.splits dest: inv_getContractBySymbol inv_topstepxRequest)

lemma inv_handleGetBars:
  "session_inv w \<Longrightarrow> session_inv (snd (handleGetBars args w))"
  by (auto simp: handleGetBars_def snd_catching Let_def
      split: prod.splits sum.splits dest: inv_getContractBySymbol inv_topstepxRequest)

lemma inv_callTool:
  "session_inv w \<Longrightarrow> session_inv (snd (callTool toISOString name args w))"
  by (simp add: callTool_def inv_handleGetContractDetails inv_handleSearchContracts
      inv_handlePlaceOrder inv_handleClosePosition inv_handleModifyOrder inv_handleCancelOrder
      inv_handleGetAccountSummary inv_handleGetMarketData inv_handleGetBars
      handleGetAccounts_def handleGetCommonContracts_def handleListPositions_def
      handleListOrders_def snd_catching getPositions_def getOrders_def)

lemma reachable_session_inv: "reachable w \<Longrightarrow> session_inv w"
proof (induction rule: reachable.induct)
  case (start e r t)
  show ?case by (simp add: session_inv_def initial_world_def)
next
  case (login w)
  from login.IH show ?case using inv_authenticate[of w "fst (authenticate w)" "snd (authenticate w)"] by simp
next
  case (refresh w)
  from refresh.IH show ?case by (rule inv_initializeData)
next
  case (tool w toISOString name args)
  from tool.IH show ?case by (rule inv_callTool)
next
  case (tick w d)
  from tick.IH show ?case by (simp add: session_inv_def split: option.splits)
qed


text \<open>The states of the scenarios are states the server reaches.\<close>

lemma reachable_live_session: "reachable (live_session r)"
  unfolding live_session_def by (rule reachable.login) (rule reachable.start)

lemma armed_by_tool:
  "armed = snd (callTool (\<lambda>t. []) ''get_contract_details'' (JObj [(''symbol'', JStr ''MES'')])
                  (live_session mes_found))"
  by (simp add: armed_def callTool_def handleGetContractDetails_def snd_catching arguments_ok_def
      field_def Let_def split: prod.splits sum.splits)

lemma reachable_armed: "reachable armed"
  unfolding armed_by_tool by (rule reachable.tool) (rule reachable_live_session)

end
